theory Spec2Isabelle
  imports Complex_Main "HOL-Library.Char_ord" "HOL-Library.List_Lexorder" "HOL-Library.Multiset"
begin

section \<open>Series: the part of pandas and numpy the two modules rely on\<close>

text \<open>
  A pandas Series is an ordered list of (label, value) pairs. Numbers are Python floats;
  they are modelled as exact reals, and the missing value NaN is \<open>None\<close>. The model has
  no infinities: the one float division whose divisor the code does not guard
  (\<open>20 / building_volume\<close>) yields \<open>None\<close> at a zero divisor.
  Labels of a dwelling population are integers; the monthly reference series are
  labelled by month names.
\<close>

type_synonym num = "real option"

type_synonym ('l, 'a) series = "('l \<times> 'a) list"

datatype error = DivisionByZero | ValueError | KeyError | IndexingError

definition index :: "('l, 'a) series \<Rightarrow> 'l list" where
  "index s = map fst s"

definition values_of :: "('l, 'a) series \<Rightarrow> 'a list" where
  "values_of s = map snd s"

text \<open>Sequencing of calls that may raise: the first exception wins.\<close>

definition bind_err :: "error + 'a \<Rightarrow> ('a \<Rightarrow> error + 'b) \<Rightarrow> error + 'b" where
  "bind_err m f = (case m of Inl e \<Rightarrow> Inl e | Inr x \<Rightarrow> f x)"

text \<open>Float arithmetic: NaN is absorbing.\<close>

definition num_op2 :: "(real \<Rightarrow> real \<Rightarrow> real) \<Rightarrow> num \<Rightarrow> num \<Rightarrow> num" where
  "num_op2 f a b =
     (case a of None \<Rightarrow> None
      | Some x \<Rightarrow> (case b of None \<Rightarrow> None | Some y \<Rightarrow> Some (f x y)))"

definition num_add :: "num \<Rightarrow> num \<Rightarrow> num" where
  "num_add = num_op2 (+)"

definition num_sub :: "num \<Rightarrow> num \<Rightarrow> num" where
  "num_sub = num_op2 (-)"

definition num_mul :: "num \<Rightarrow> num \<Rightarrow> num" where
  "num_mul = num_op2 (*)"

definition num_div :: "num \<Rightarrow> num \<Rightarrow> num" where
  "num_div a b =
     (case a of None \<Rightarrow> None
      | Some x \<Rightarrow> (case b of None \<Rightarrow> None
                   | Some y \<Rightarrow> if y = 0 then None else Some (x / y)))"

text \<open>A Series combined with a scalar: the operation is applied to every value.\<close>

definition series_scalar :: "('a \<Rightarrow> 'b) \<Rightarrow> ('l, 'a) series \<Rightarrow> ('l, 'b) series" where
  "series_scalar g s = map (\<lambda>(k, v). (k, g v)) s"

text \<open>
  A Series combined with a Series. When the two indexes are equal the values are
  combined position by position. Otherwise pandas aligns the operands on the outer
  join of the two indexes: the labels of both, sorted, each label carrying every
  pairing of the left values with the right values under that label, and NaN on the
  side where the label is absent.
\<close>

definition lookup_all :: "'l \<Rightarrow> ('l, 'a) series \<Rightarrow> 'a list" where
  "lookup_all k s = map snd (filter (\<lambda>p. fst p = k) s)"

definition pad_missing :: "'a option list \<Rightarrow> 'a option list" where
  "pad_missing vs = (if vs = [] then [None] else vs)"

definition outer_join_op ::
  "(num \<Rightarrow> num \<Rightarrow> num) \<Rightarrow> ('l::linorder, num) series \<Rightarrow> ('l, num) series \<Rightarrow> ('l, num) series" where
  "outer_join_op f a b =
     concat (map (\<lambda>k. concat (map (\<lambda>x. map (\<lambda>y. (k, f x y)) (pad_missing (lookup_all k b)))
                                   (pad_missing (lookup_all k a))))
                 (sort (remdups (index a @ index b))))"

definition series_binop ::
  "(num \<Rightarrow> num \<Rightarrow> num) \<Rightarrow> ('l::linorder, num) series \<Rightarrow> ('l, num) series \<Rightarrow> ('l, num) series" where
  "series_binop f a b =
     (if index a = index b then map (\<lambda>(p, q). (fst p, f (snd p) (snd q))) (zip a b)
      else outer_join_op f a b)"

text \<open>\<open>Series.map(dict)\<close>: a value that is not a key of the dict becomes NaN.\<close>

definition series_map :: "('a \<times> 'b) list \<Rightarrow> ('l, 'a option) series \<Rightarrow> ('l, 'b option) series" where
  "series_map d s = series_scalar (\<lambda>v. case v of None \<Rightarrow> None | Some x \<Rightarrow> map_of d x) s"

text \<open>\<open>Series.unique()\<close> (order of first appearance), \<open>np.in1d\<close>, \<open>.all()\<close>, \<open>.any()\<close>.\<close>

definition unique :: "'a list \<Rightarrow> 'a list" where
  "unique xs = rev (remdups (rev xs))"

definition in1d :: "'a option list \<Rightarrow> 'a list \<Rightarrow> bool list" where
  "in1d xs acceptable = map (\<lambda>v. case v of None \<Rightarrow> False | Some x \<Rightarrow> x \<in> set acceptable) xs"

definition np_all :: "bool list \<Rightarrow> bool" where
  "np_all bs = list_all (\<lambda>b. b) bs"

definition np_any :: "bool list \<Rightarrow> bool" where
  "np_any bs = list_ex (\<lambda>b. b) bs"

text \<open>
  \<open>np.where(cond, x, y)\<close> works on the bare values, position by position, after
  broadcasting the three arrays to one length; arrays that do not broadcast raise.
\<close>

definition broadcast_shape :: "nat \<Rightarrow> nat \<Rightarrow> nat option" where
  "broadcast_shape a b =
     (if a = b then Some a else if a = 1 then Some b else if b = 1 then Some a else None)"

definition broadcast_to :: "nat \<Rightarrow> 'a list \<Rightarrow> 'a list" where
  "broadcast_to n xs = (if length xs = n then xs else replicate n (hd xs))"

definition np_where :: "bool list \<Rightarrow> 'a list \<Rightarrow> 'a list \<Rightarrow> error + 'a list" where
  "np_where c x y =
     (case broadcast_shape (length c) (length x) of
        None \<Rightarrow> Inl ValueError
      | Some n \<Rightarrow>
         (case broadcast_shape n (length y) of
            None \<Rightarrow> Inl ValueError
          | Some m \<Rightarrow>
              Inr (map (\<lambda>(b, u, v). if b then u else v)
                     (zip (broadcast_to m c) (zip (broadcast_to m x) (broadcast_to m y))))))"

text \<open>\<open>pd.Series(values)\<close> with no index given: the labels are the positions 0..N-1.\<close>

definition range_index :: "nat \<Rightarrow> int list" where
  "range_index n = map int [0..<n]"

definition pd_Series :: "'a list \<Rightarrow> (int, 'a) series" where
  "pd_Series vs = zip (range_index (length vs)) vs"

text \<open>Comparison of a numeric Series with a scalar: NaN compares false.\<close>

definition series_gt :: "('l, num) series \<Rightarrow> real \<Rightarrow> ('l, bool) series" where
  "series_gt s c = series_scalar (\<lambda>v. case v of None \<Rightarrow> False | Some x \<Rightarrow> x > c) s"

definition series_eq :: "('l, 'a option) series \<Rightarrow> 'a \<Rightarrow> ('l, bool) series" where
  "series_eq s c = series_scalar (\<lambda>v. v = Some c) s"

text \<open>
  \<open>s.where(cond, other)\<close>, with \<open>cond\<close> and \<open>other\<close> computed from \<open>s\<close> itself (so on its
  index): the value of \<open>s\<close> is kept where \<open>cond\<close> holds and replaced by that of \<open>other\<close>
  elsewhere.
\<close>

definition series_where ::
  "('l, 'a) series \<Rightarrow> ('l, bool) series \<Rightarrow> ('l, 'a) series \<Rightarrow> ('l, 'a) series" where
  "series_where s cond other =
     map (\<lambda>(p, c, q). (fst p, if snd c then snd p else snd q)) (zip s (zip cond other))"

text \<open>
  \<open>s[mask]\<close> with a boolean Series: when the mask is on the index of \<open>s\<close> the rows with a
  true mask are kept. Otherwise the mask is first re-indexed by the labels of \<open>s\<close>: a
  label it does not have raises (IndexingError), as does a mask with repeated labels
  (the exception class of the latter varies between pandas releases).
\<close>

definition series_getitem ::
  "('l, 'a) series \<Rightarrow> ('l, bool) series \<Rightarrow> error + ('l, 'a) series" where
  "series_getitem s bmask =
     (if index bmask = index s then Inr (map fst (filter (\<lambda>(p, m). snd m) (zip s bmask)))
      else if \<not> distinct (index bmask) then Inl ValueError
      else if \<not> set (index s) \<subseteq> set (index bmask) then Inl IndexingError
      else Inr (filter (\<lambda>p. map_of bmask (fst p) = Some True) s))"

text \<open>\<open>pd.concat\<close> appends; \<open>sort_index\<close> orders the rows by label.\<close>

definition pd_concat :: "('l, 'a) series list \<Rightarrow> ('l, 'a) series" where
  "pd_concat ss = concat ss"

definition sort_index :: "('l::linorder, 'a) series \<Rightarrow> ('l, 'a) series" where
  "sort_index s = sort_key fst s"

section \<open>The ventilation module (vent.py)\<close>

subsection \<open>Stage 1: openings\<close>

text \<open>
  \<open>_calculate_infiltration_rate_due_to_opening\<close> (the leading underscore of the Python
  name is dropped here and below).
\<close>

definition calculate_infiltration_rate_due_to_opening ::
  "(int, num) series \<Rightarrow> (int, num) series \<Rightarrow> real \<Rightarrow> error + (int, num) series" where
  "calculate_infiltration_rate_due_to_opening no_openings building_volume ventilation_rate =
     (let is_building_volume_zero = series_eq building_volume 0 in
      if np_any (values_of is_building_volume_zero) then Inl DivisionByZero
      else Inr (series_binop num_div
                  (series_scalar (\<lambda>v. num_mul v (Some ventilation_rate)) no_openings)
                  building_volume))"

definition calculate_infiltration_rate_due_to_chimneys ::
  "(int, num) series \<Rightarrow> (int, num) series \<Rightarrow> real \<Rightarrow> error + (int, num) series" where
  "calculate_infiltration_rate_due_to_chimneys no_chimneys building_volume ventilation_rate =
     calculate_infiltration_rate_due_to_opening no_chimneys building_volume ventilation_rate"

definition calculate_infiltration_rate_due_to_open_flues ::
  "(int, num) series \<Rightarrow> (int, num) series \<Rightarrow> real \<Rightarrow> error + (int, num) series" where
  "calculate_infiltration_rate_due_to_open_flues no_chimneys building_volume ventilation_rate =
     calculate_infiltration_rate_due_to_opening no_chimneys building_volume ventilation_rate"

definition calculate_infiltration_rate_due_to_fans ::
  "(int, num) series \<Rightarrow> (int, num) series \<Rightarrow> real \<Rightarrow> error + (int, num) series" where
  "calculate_infiltration_rate_due_to_fans no_chimneys building_volume ventilation_rate =
     calculate_infiltration_rate_due_to_opening no_chimneys building_volume ventilation_rate"

definition calculate_infiltration_rate_due_to_room_heaters ::
  "(int, num) series \<Rightarrow> (int, num) series \<Rightarrow> real \<Rightarrow> error + (int, num) series" where
  "calculate_infiltration_rate_due_to_room_heaters no_chimneys building_volume ventilation_rate =
     calculate_infiltration_rate_due_to_opening no_chimneys building_volume ventilation_rate"

definition yes_or_no_map :: "(string \<times> bool) list" where
  "yes_or_no_map = [(''YES'', True), (''NO'', False)]"

definition calculate_infiltration_rate_due_to_draught_lobby ::
  "(int, string option) series \<Rightarrow> (int, num) series" where
  "calculate_infiltration_rate_due_to_draught_lobby is_draught_lobby =
     series_map [(True, 0), (False, 0.05)] (series_map yes_or_no_map is_draught_lobby)"

text \<open>The four opening calls use the default rates 40, 20, 10 and 40 of their signatures.\<close>

definition calculate_infiltration_rate_due_to_openings ::
  "(int, num) series \<Rightarrow> (int, num) series \<Rightarrow> (int, num) series \<Rightarrow> (int, num) series \<Rightarrow>
   (int, num) series \<Rightarrow> (int, string option) series \<Rightarrow> error + (int, num) series" where
  "calculate_infiltration_rate_due_to_openings building_volume no_chimneys no_open_flues no_fans
       no_room_heaters is_draught_lobby =
     bind_err (calculate_infiltration_rate_due_to_chimneys no_chimneys building_volume 40) (\<lambda>c.
     bind_err (calculate_infiltration_rate_due_to_open_flues no_open_flues building_volume 20) (\<lambda>f.
     bind_err (calculate_infiltration_rate_due_to_fans no_fans building_volume 10) (\<lambda>n.
     bind_err (calculate_infiltration_rate_due_to_room_heaters no_room_heaters building_volume 40) (\<lambda>h.
     Inr (series_binop num_add
            (series_binop num_add (series_binop num_add (series_binop num_add c f) n) h)
            (calculate_infiltration_rate_due_to_draught_lobby is_draught_lobby))))))"

subsection \<open>Stage 2: structure\<close>

definition calculate_infiltration_rate_due_to_height :: "(int, num) series \<Rightarrow> (int, num) series" where
  "calculate_infiltration_rate_due_to_height no_storeys =
     series_scalar (\<lambda>v. num_mul (num_sub v (Some 1)) (Some 0.1)) no_storeys"

definition acceptable_structure_types :: "string list" where
  "acceptable_structure_types = [''unknown'', ''masonry'', ''timber_or_steel'', ''concrete'']"

definition calculate_infiltration_rate_due_to_structure_type ::
  "(int, string option) series \<Rightarrow> real \<Rightarrow> error + (int, num) series" where
  "calculate_infiltration_rate_due_to_structure_type structure_type
       unknown_structure_infiltration_rate =
     (if \<not> np_all (in1d (unique (values_of structure_type)) acceptable_structure_types)
      then Inl ValueError
      else Inr (series_map
                  [(''unknown'', unknown_structure_infiltration_rate),
                   (''masonry'', 0.35),
                   (''timber_or_steel'', 0.25),
                   (''concrete'', 0)]
                  structure_type))"

definition acceptable_suspended_floor_types :: "string list" where
  "acceptable_suspended_floor_types = [''none'', ''sealed'', ''unsealed'']"

definition calculate_infiltration_rate_due_to_suspended_floor ::
  "(int, string option) series \<Rightarrow> error + (int, num) series" where
  "calculate_infiltration_rate_due_to_suspended_floor is_floor_suspended =
     (if \<not> np_all (in1d (unique (values_of is_floor_suspended)) acceptable_suspended_floor_types)
      then Inl ValueError
      else Inr (series_map [(''none'', 0), (''sealed'', 0.1), (''unsealed'', 0.2)]
                  is_floor_suspended))"

definition calculate_infiltration_rate_due_to_draught :: "(int, num) series \<Rightarrow> (int, num) series" where
  "calculate_infiltration_rate_due_to_draught percentage_draught_stripped =
     series_scalar
       (\<lambda>v. num_sub (Some 0.25) (num_mul (Some 0.2) (num_div v (Some 100))))
       percentage_draught_stripped"

text \<open>
  The structure-type call uses the default 0.35 for the unknown type. The result is
  wrapped by \<open>pd.Series\<close> with no index, so it is labelled by position.
\<close>

definition calculate_infiltration_rate_due_to_structure ::
  "(int, num) series \<Rightarrow> (int, num) series \<Rightarrow> (int, num) series \<Rightarrow>
   (int, string option) series \<Rightarrow> (int, string option) series \<Rightarrow> error + (int, num) series" where
  "calculate_infiltration_rate_due_to_structure permeability_test_result no_storeys
       percentage_draught_stripped is_floor_suspended structure_type =
     bind_err (calculate_infiltration_rate_due_to_structure_type structure_type 0.35) (\<lambda>t.
     bind_err (calculate_infiltration_rate_due_to_suspended_floor is_floor_suspended) (\<lambda>f.
     (let theoretical_infiltration_rate =
            series_binop num_add
              (series_binop num_add
                 (series_binop num_add (calculate_infiltration_rate_due_to_height no_storeys) t) f)
              (calculate_infiltration_rate_due_to_draught percentage_draught_stripped);
          infiltration_rate_is_available = series_gt permeability_test_result 0
      in bind_err (np_where (values_of infiltration_rate_is_available)
                     (values_of permeability_test_result)
                     (values_of theoretical_infiltration_rate))
           (\<lambda>w. Inr (pd_Series w)))))"

subsection \<open>Stage 3: combination and shelter adjustment\<close>

definition calculate_infiltration_rate_adjustment_factor ::
  "(int, num) series \<Rightarrow> (int, num) series \<Rightarrow> (int, num) series" where
  "calculate_infiltration_rate_adjustment_factor infiltration_rate no_sides_sheltered =
     series_binop num_mul infiltration_rate
       (series_scalar (\<lambda>v. num_sub (Some 1) (num_mul v (Some 0.075))) no_sides_sheltered)"

definition calculate_infiltration_rate ::
  "(int, num) series \<Rightarrow> (int, num) series \<Rightarrow> (int, num) series \<Rightarrow> (int, num) series \<Rightarrow>
   (int, num) series \<Rightarrow> (int, num) series \<Rightarrow> (int, string option) series \<Rightarrow>
   (int, num) series \<Rightarrow> (int, num) series \<Rightarrow> (int, num) series \<Rightarrow>
   (int, string option) series \<Rightarrow> (int, string option) series \<Rightarrow> error + (int, num) series" where
  "calculate_infiltration_rate no_sides_sheltered building_volume no_chimneys no_open_flues
       no_fans no_room_heaters is_draught_lobby permeability_test_result no_storeys
       percentage_draught_stripped is_floor_suspended structure_type =
     bind_err (calculate_infiltration_rate_due_to_openings building_volume no_chimneys
                 no_open_flues no_fans no_room_heaters is_draught_lobby)
       (\<lambda>infiltration_rate_due_to_openings.
     bind_err (calculate_infiltration_rate_due_to_structure permeability_test_result no_storeys
                 percentage_draught_stripped is_floor_suspended structure_type)
       (\<lambda>infiltration_rate_due_to_structure.
     (let infiltration_rate =
            series_binop num_add infiltration_rate_due_to_openings
              infiltration_rate_due_to_structure
      in Inr (calculate_infiltration_rate_adjustment_factor infiltration_rate
                no_sides_sheltered))))"

subsection \<open>Stage 4: effective air-change rate by ventilation method\<close>

definition num_pow :: "num \<Rightarrow> nat \<Rightarrow> num" where
  "num_pow v n = map_option (\<lambda>x. x ^ n) v"

definition num_maximum :: "num \<Rightarrow> num \<Rightarrow> num" where
  "num_maximum = num_op2 max"

definition calculate_natural_ventilation_air_rate_change ::
  "(int, num) series \<Rightarrow> (int, num) series" where
  "calculate_natural_ventilation_air_rate_change infiltration_rate =
     series_where infiltration_rate (series_gt infiltration_rate 1)
       (series_scalar (\<lambda>v. num_add (Some 0.5) (num_mul (num_pow v 2) (Some 0.5)))
          infiltration_rate)"

definition calculate_loft_ventilation_air_rate_change ::
  "(int, num) series \<Rightarrow> (int, num) series \<Rightarrow> (int, num) series" where
  "calculate_loft_ventilation_air_rate_change infiltration_rate building_volume =
     series_binop num_add
       (calculate_natural_ventilation_air_rate_change infiltration_rate)
       (series_scalar (\<lambda>v. num_div (Some 20) v) building_volume)"

definition calculate_outside_ventilation_air_rate_change ::
  "(int, num) series \<Rightarrow> (int, num) series" where
  "calculate_outside_ventilation_air_rate_change infiltration_rate =
     series_scalar (\<lambda>v. num_maximum (Some 0.5) (num_add v (Some 0.25))) infiltration_rate"

definition calculate_mech_ventilation_air_rate_change ::
  "(int, num) series \<Rightarrow> (int, num) series" where
  "calculate_mech_ventilation_air_rate_change infiltration_rate =
     series_scalar (\<lambda>v. num_add v (Some 0.5)) infiltration_rate"

definition calculate_heat_recovery_ventilation_air_rate_change ::
  "(int, num) series \<Rightarrow> (int, num) series \<Rightarrow> (int, num) series" where
  "calculate_heat_recovery_ventilation_air_rate_change infiltration_rate
       heat_exchanger_efficiency =
     series_binop num_add infiltration_rate
       (series_scalar (\<lambda>v. num_mul (Some 0.5) (num_sub (Some 1) (num_div v (Some 100))))
          heat_exchanger_efficiency)"

definition acceptable_ventilation_methods :: "string list" where
  "acceptable_ventilation_methods =
     [''positive_input_ventilation_from_loft'',
      ''natural_ventilation'',
      ''mechanical_ventilation_no_heat_recovery'',
      ''mechanical_ventilation_heat_recovery'',
      ''positive_input_ventilation_from_outside'']"

definition calculate_effective_air_rate_change ::
  "(int, string option) series \<Rightarrow> (int, num) series \<Rightarrow> (int, num) series \<Rightarrow>
   (int, num) series \<Rightarrow> error + (int, num) series" where
  "calculate_effective_air_rate_change ventilation_method building_volume infiltration_rate
       heat_exchanger_efficiency =
     (if \<not> np_all (in1d (unique (values_of ventilation_method)) acceptable_ventilation_methods)
      then Inl ValueError
      else
        bind_err (series_getitem infiltration_rate
                    (series_eq ventilation_method ''natural_ventilation'')) (\<lambda>i1.
        let natural = calculate_natural_ventilation_air_rate_change i1 in
        bind_err (series_getitem infiltration_rate
                    (series_eq ventilation_method ''positive_input_ventilation_from_loft'')) (\<lambda>i2.
        bind_err (series_getitem building_volume
                    (series_eq ventilation_method ''positive_input_ventilation_from_loft'')) (\<lambda>v2.
        let loft = calculate_loft_ventilation_air_rate_change i2 v2 in
        bind_err (series_getitem infiltration_rate
                    (series_eq ventilation_method ''positive_input_ventilation_from_outside'')) (\<lambda>i3.
        let outside = calculate_outside_ventilation_air_rate_change i3 in
        bind_err (series_getitem infiltration_rate
                    (series_eq ventilation_method ''mechanical_ventilation_no_heat_recovery'')) (\<lambda>i4.
        let mechanical = calculate_mech_ventilation_air_rate_change i4 in
        bind_err (series_getitem infiltration_rate
                    (series_eq ventilation_method ''mechanical_ventilation_heat_recovery'')) (\<lambda>i5.
        bind_err (series_getitem heat_exchanger_efficiency
                    (series_eq ventilation_method ''mechanical_ventilation_heat_recovery'')) (\<lambda>e5.
        let heat_recovery = calculate_heat_recovery_ventilation_air_rate_change i5 e5 in
        Inr (sort_index (pd_concat [natural, loft, outside, mechanical, heat_recovery]))))))))))"

definition calculate_ventilation_heat_loss ::
  "(int, num) series \<Rightarrow> (int, num) series \<Rightarrow> real \<Rightarrow> (int, num) series" where
  "calculate_ventilation_heat_loss building_volume effective_air_rate_change
       ventilation_heat_loss_constant =
     series_binop num_mul
       (series_scalar (\<lambda>v. num_mul v (Some ventilation_heat_loss_constant)) building_volume)
       effective_air_rate_change"

subsection \<open>Dwelling populations\<close>

text \<open>
  A population is a table: one labelled row per dwelling, the label being the
  dwelling's index. The functions above receive its columns, which therefore share
  one index. The fields hold numbers and strings (no missing values).
\<close>

record dwelling =
  row_no_sides_sheltered :: real
  row_building_volume :: real
  row_no_chimneys :: real
  row_no_open_flues :: real
  row_no_fans :: real
  row_no_room_heaters :: real
  row_is_draught_lobby :: string
  row_permeability_test_result :: real
  row_no_storeys :: real
  row_percentage_draught_stripped :: real
  row_is_floor_suspended :: string
  row_structure_type :: string
  row_ventilation_method :: string
  row_heat_exchanger_efficiency :: real
  row_infiltration_rate :: real

type_synonym 'r population = "(int \<times> 'r) list"

text \<open>The Series with the rows' labels whose value at a row is \<open>g\<close> of that row.\<close>

definition tab :: "('r \<Rightarrow> 'a) \<Rightarrow> 'r population \<Rightarrow> (int, 'a) series" where
  "tab g pop = map (\<lambda>(k, d). (k, g d)) pop"

definition column :: "('r \<Rightarrow> 'a) \<Rightarrow> 'r population \<Rightarrow> (int, 'a option) series" where
  "column field pop = tab (\<lambda>d. Some (field d)) pop"

definition population_infiltration_rate_due_to_openings ::
  "dwelling population \<Rightarrow> error + (int, num) series" where
  "population_infiltration_rate_due_to_openings pop =
     calculate_infiltration_rate_due_to_openings
       (column row_building_volume pop) (column row_no_chimneys pop)
       (column row_no_open_flues pop) (column row_no_fans pop)
       (column row_no_room_heaters pop) (column row_is_draught_lobby pop)"

definition population_infiltration_rate_due_to_structure ::
  "dwelling population \<Rightarrow> error + (int, num) series" where
  "population_infiltration_rate_due_to_structure pop =
     calculate_infiltration_rate_due_to_structure
       (column row_permeability_test_result pop) (column row_no_storeys pop)
       (column row_percentage_draught_stripped pop) (column row_is_floor_suspended pop)
       (column row_structure_type pop)"

definition population_infiltration_rate :: "dwelling population \<Rightarrow> error + (int, num) series" where
  "population_infiltration_rate pop =
     calculate_infiltration_rate
       (column row_no_sides_sheltered pop) (column row_building_volume pop)
       (column row_no_chimneys pop) (column row_no_open_flues pop) (column row_no_fans pop)
       (column row_no_room_heaters pop) (column row_is_draught_lobby pop)
       (column row_permeability_test_result pop) (column row_no_storeys pop)
       (column row_percentage_draught_stripped pop) (column row_is_floor_suspended pop)
       (column row_structure_type pop)"

definition population_effective_air_rate_change ::
  "dwelling population \<Rightarrow> error + (int, num) series" where
  "population_effective_air_rate_change pop =
     calculate_effective_air_rate_change
       (column row_ventilation_method pop) (column row_building_volume pop)
       (column row_infiltration_rate pop) (column row_heat_exchanger_efficiency pop)"

section \<open>The heat-transfer module (htuse.py)\<close>

subsection \<open>Array and Series operations used by the module\<close>

text \<open>
  Element-wise arithmetic on bare arrays broadcasts like \<open>np.where\<close>. \<open>np.tile\<close> repeats
  the whole array, \<open>np.repeat\<close> repeats each element in place.
\<close>

definition np_binop :: "(num \<Rightarrow> num \<Rightarrow> num) \<Rightarrow> num list \<Rightarrow> num list \<Rightarrow> error + num list" where
  "np_binop f xs ys =
     (case broadcast_shape (length xs) (length ys) of
        None \<Rightarrow> Inl ValueError
      | Some n \<Rightarrow> Inr (map (\<lambda>(x, y). f x y) (zip (broadcast_to n xs) (broadcast_to n ys))))"

definition np_tile :: "'a list \<Rightarrow> nat \<Rightarrow> 'a list" where
  "np_tile xs n = concat (replicate n xs)"

definition np_repeat :: "'a list \<Rightarrow> nat \<Rightarrow> 'a list" where
  "np_repeat xs n = concat (map (replicate n) xs)"

text \<open>\<open>pd.Series(values, index=labels)\<close> raises when the two lengths differ.\<close>

definition pd_Series_index :: "'a list \<Rightarrow> 'l list \<Rightarrow> error + ('l, 'a) series" where
  "pd_Series_index vs idx = (if length vs = length idx then Inr (zip idx vs) else Inl ValueError)"

text \<open>
  \<open>s.loc[labels]\<close> with a list of labels: a label that the index lacks raises KeyError;
  otherwise the rows are returned label by label, all rows of one label in their
  original order.
\<close>

definition series_loc :: "('l, 'a) series \<Rightarrow> 'l list \<Rightarrow> error + ('l, 'a) series" where
  "series_loc s labels =
     (if list_ex (\<lambda>l. l \<notin> set (index s)) labels then Inl KeyError
      else Inr (concat (map (\<lambda>l. filter (\<lambda>p. fst p = l) s) labels)))"

text \<open>
  \<open>groupby(...).cumcount()\<close>: each row is numbered by how many earlier rows carry its key.
\<close>

fun cumcount_from :: "'a list \<Rightarrow> 'a list \<Rightarrow> nat list" where
  "cumcount_from seen [] = []"
| "cumcount_from seen (k # ks) = count_list seen k # cumcount_from (k # seen) ks"

definition groupby_cumcount :: "'a list \<Rightarrow> int list" where
  "groupby_cumcount ks = map int (cumcount_from [] ks)"

text \<open>
  Sums skip NaN. \<open>sum(level=0)\<close> groups the rows by label, the groups in sorted label
  order, and sums each group.
\<close>

definition nansum :: "num list \<Rightarrow> real" where
  "nansum vs = sum_list (map (\<lambda>v. case v of None \<Rightarrow> 0 | Some x \<Rightarrow> x) vs)"

definition sum_level0 :: "('l::linorder, num) series \<Rightarrow> ('l, num) series" where
  "sum_level0 s = map (\<lambda>k. (k, Some (nansum (lookup_all k s)))) (sort (remdups (index s)))"

text \<open>\<open>round()\<close> rounds to the nearest integer, a tie going to the even neighbour.\<close>

definition np_round :: "real \<Rightarrow> real" where
  "np_round x =
     (let f = \<lfloor>x\<rfloor>; r = x - of_int f in
      if r < 1/2 then of_int f
      else if r > 1/2 then of_int (f + 1)
      else if even f then of_int f else of_int (f + 1))"

subsection \<open>Monthly reference series\<close>

definition ADJUSTED_MONTHLY_INTERNAL_TEMPERATURE :: "(string, num) series" where
  "ADJUSTED_MONTHLY_INTERNAL_TEMPERATURE =
     [(''jan'', Some 17.72), (''feb'', Some 17.73), (''mar'', Some 17.85), (''apr'', Some 17.95),
      (''may'', Some 18.15), (''jun'', Some 18.35), (''jul'', Some 18.50), (''aug'', Some 18.48),
      (''sep'', Some 18.33), (''oct'', Some 18.11), (''nov'', Some 17.88), (''dec'', Some 17.77)]"

definition MEAN_MONTHLY_EXTERNAL_TEMPERATURE :: "(string, num) series" where
  "MEAN_MONTHLY_EXTERNAL_TEMPERATURE =
     [(''jan'', Some 5.3), (''feb'', Some 5.5), (''mar'', Some 7.0), (''apr'', Some 8.3),
      (''may'', Some 11.0), (''jun'', Some 13.5), (''jul'', Some 15.5), (''aug'', Some 15.2),
      (''sep'', Some 13.3), (''oct'', Some 10.4), (''nov'', Some 7.5), (''dec'', Some 6.0)]"

definition DELTA_T_BY_MONTH :: "(string, num) series" where
  "DELTA_T_BY_MONTH =
     series_binop num_sub ADJUSTED_MONTHLY_INTERNAL_TEMPERATURE MEAN_MONTHLY_EXTERNAL_TEMPERATURE"

definition HOURS_PER_MONTH :: "(string, num) series" where
  "HOURS_PER_MONTH =
     zip [''jan'', ''feb'', ''mar'', ''apr'', ''may'', ''jun'',
          ''jul'', ''aug'', ''sep'', ''oct'', ''nov'', ''dec'']
       (map (\<lambda>d. Some (d * 24)) [31, 28, 31, 30, 31, 30, 31, 31, 30, 31, 30, 31])"

definition MEAN_MONTHLY_SOLAR_GAINS :: "(string, num) series" where
  "MEAN_MONTHLY_SOLAR_GAINS =
     [(''jan'', Some 0.63), (''feb'', Some 1.12), (''mar'', Some 1.7), (''apr'', Some 2.35),
      (''may'', Some 2.96), (''jun'', Some 2.99), (''jul'', Some 2.79), (''aug'', Some 2.54),
      (''sep'', Some 1.99), (''oct'', Some 1.37), (''nov'', Some 0.8), (''dec'', Some 0.55)]"

definition UTILISATION_FACTOR :: "(string, num) series" where
  "UTILISATION_FACTOR =
     [(''jan'', Some 0.99), (''feb'', Some 0.97), (''mar'', Some 0.91), (''apr'', Some 0.78),
      (''may'', Some 0.55), (''jun'', Some 0.38), (''jul'', Some 0.25), (''aug'', Some 0.29),
      (''sep'', Some 0.51), (''oct'', Some 0.83), (''nov'', Some 0.97), (''dec'', Some 0.99)]"

subsection \<open>Heat loss, useful gains, heat use\<close>

text \<open>\<open>_calculate_heat_loss_kwh\<close>; the result is a bare array.\<close>

definition calculate_heat_loss_kwh ::
  "(int, num) series \<Rightarrow> (string, num) series \<Rightarrow> (string, num) series \<Rightarrow> error + num list" where
  "calculate_heat_loss_kwh heat_loss_coefficient delta_t hours =
     (let broadcasted_delta_t = np_tile (values_of delta_t) (length heat_loss_coefficient);
          broadcasted_hours_per_month = np_tile (values_of hours) (length heat_loss_coefficient);
          broadcasted_heat_loss_coefficient =
            values_of (np_repeat heat_loss_coefficient (length hours))
      in bind_err (np_binop num_mul broadcasted_heat_loss_coefficient broadcasted_delta_t)
           (\<lambda>heat_loss_w.
              let w_to_kwh = 1 / 1000 in
              np_binop num_mul (map (\<lambda>v. num_mul v (Some w_to_kwh)) heat_loss_w)
                broadcasted_hours_per_month))"

definition months :: "string list" where
  "months = [''jan'', ''feb'', ''mar'', ''apr'', ''may'', ''jun'',
             ''jul'', ''aug'', ''sep'', ''oct'', ''nov'', ''dec'']"

definition heating_months :: "string list" where
  "heating_months = [''jan'', ''feb'', ''mar'', ''apr'', ''may'', ''oct'', ''nov'', ''dec'']"

definition calculate_heat_loss_per_year ::
  "(int, num) series \<Rightarrow> (string, num) series \<Rightarrow> (string, num) series \<Rightarrow>
   error + (int, num) series" where
  "calculate_heat_loss_per_year heat_loss_coefficient delta_t hours =
     bind_err (calculate_heat_loss_kwh heat_loss_coefficient delta_t hours) (\<lambda>heat_loss_kwh.
     bind_err (pd_Series_index heat_loss_kwh
                 (concat (replicate (length heat_loss_coefficient) months))) (\<lambda>s.
     bind_err (series_loc s heating_months) (\<lambda>heat_loss_kwh_for_heating_months.
     (let new_index = groupby_cumcount (index heat_loss_kwh_for_heating_months) in
      bind_err (pd_Series_index (values_of heat_loss_kwh_for_heating_months) new_index)
        (\<lambda>reindexed. Inr (series_scalar (map_option np_round) (sum_level0 reindexed)))))))"

text \<open>\<open>Series.sum()\<close> skips NaN.\<close>

definition series_sum :: "('l, num) series \<Rightarrow> real" where
  "series_sum s = nansum (values_of s)"

definition calculate_useful_gains_per_year ::
  "(int, num) series \<Rightarrow> (int, num) series \<Rightarrow> (string, num) series \<Rightarrow> real \<Rightarrow> (int, num) series" where
  "calculate_useful_gains_per_year floor_area window_area mean_monthly_solar_gains
       light_gain_value =
     (let solar_gain_kwh =
            series_scalar
              (\<lambda>v. num_mul (num_div v (Some 6))
                     (Some (series_sum (series_binop num_mul mean_monthly_solar_gains
                                          UTILISATION_FACTOR))))
              window_area;
          solar_gain_w =
            series_scalar (\<lambda>v. num_div (num_mul v (Some 1000)) (Some 24)) solar_gain_kwh;
          light_gains = series_scalar (\<lambda>v. num_mul v (Some light_gain_value)) floor_area
      in series_binop num_add solar_gain_w light_gains)"

definition calculate_heat_use :: "(int, num) series \<Rightarrow> (int, num) series \<Rightarrow> (int, num) series" where
  "calculate_heat_use monthly_heat_loss monthly_useful_gains =
     (let monthly_heat_use_w =
            series_scalar (\<lambda>v. num_div v (Some 0.913))
              (series_binop num_sub monthly_heat_loss monthly_useful_gains)
      in series_scalar
           (\<lambda>v. num_mul (num_mul (num_div v (Some 1000)) (Some 24)) (Some 243))
           monthly_heat_use_w)"

section \<open>Reference formulas and example dwellings\<close>

text \<open>
  The per-dwelling formulas as the specification words them. The theorems below compare
  the Series computations of the code with these.
\<close>

definition structure_type_rate :: "string \<Rightarrow> real" where
  "structure_type_rate s =
     (if s = ''unknown'' then 0.35 else if s = ''masonry'' then 0.35
      else if s = ''timber_or_steel'' then 0.25 else 0)"

definition suspended_floor_rate :: "string \<Rightarrow> real" where
  "suspended_floor_rate s = (if s = ''none'' then 0 else if s = ''sealed'' then 0.1 else 0.2)"

definition theoretical_structure_sum :: "dwelling \<Rightarrow> real" where
  "theoretical_structure_sum d =
     (row_no_storeys d - 1) * 0.1 + structure_type_rate (row_structure_type d)
     + suspended_floor_rate (row_is_floor_suspended d)
     + (0.25 - 0.2 * row_percentage_draught_stripped d / 100)"

definition structure_value :: "dwelling \<Rightarrow> num" where
  "structure_value d =
     (if row_permeability_test_result d > 0 then Some (row_permeability_test_result d)
      else Some (theoretical_structure_sum d))"

definition valid_categories :: "dwelling \<Rightarrow> bool" where
  "valid_categories d \<longleftrightarrow>
     row_structure_type d \<in> set acceptable_structure_types \<and>
     row_is_floor_suspended d \<in> set acceptable_suspended_floor_types"

text \<open>
  The values the code computes for one row before the category checks are taken into
  account (a category that is not a key of the lookup table gives NaN).
\<close>

definition raw_structure_value :: "dwelling \<Rightarrow> num" where
  "raw_structure_value d =
     (if 0 < row_permeability_test_result d then Some (row_permeability_test_result d)
      else num_add (num_add (num_add
             (num_mul (num_sub (Some (row_no_storeys d)) (Some 1)) (Some 0.1))
             (map_of [(''unknown'', 0.35), (''masonry'', 0.35),
                      (''timber_or_steel'', 0.25), (''concrete'', 0)] (row_structure_type d)))
             (map_of [(''none'', 0), (''sealed'', 0.1), (''unsealed'', 0.2)]
                (row_is_floor_suspended d)))
             (num_sub (Some 0.25) (num_mul (Some 0.2)
                (num_div (Some (row_percentage_draught_stripped d)) (Some 100)))))"

definition raw_openings_value :: "dwelling \<Rightarrow> num" where
  "raw_openings_value d =
     num_add (num_add (num_add (num_add
       (num_div (num_mul (Some (row_no_chimneys d)) (Some 40)) (Some (row_building_volume d)))
       (num_div (num_mul (Some (row_no_open_flues d)) (Some 20)) (Some (row_building_volume d))))
       (num_div (num_mul (Some (row_no_fans d)) (Some 10)) (Some (row_building_volume d))))
       (num_div (num_mul (Some (row_no_room_heaters d)) (Some 40)) (Some (row_building_volume d))))
       (case map_of yes_or_no_map (row_is_draught_lobby d) of None \<Rightarrow> None
        | Some x \<Rightarrow> map_of [(True, 0), (False, 0.05)] x)"

definition example_dwelling :: dwelling where
  "example_dwelling =
     \<lparr>row_no_sides_sheltered = 2, row_building_volume = 200, row_no_chimneys = 1,
      row_no_open_flues = 0, row_no_fans = 2, row_no_room_heaters = 0,
      row_is_draught_lobby = ''NO'', row_permeability_test_result = 0, row_no_storeys = 2,
      row_percentage_draught_stripped = 50, row_is_floor_suspended = ''none'',
      row_structure_type = ''masonry'', row_ventilation_method = ''natural_ventilation'',
      row_heat_exchanger_efficiency = 0, row_infiltration_rate = 0.8\<rparr>"

definition example_dwelling_b :: dwelling where
  "example_dwelling_b =
     \<lparr>row_no_sides_sheltered = 1, row_building_volume = 300, row_no_chimneys = 0,
      row_no_open_flues = 1, row_no_fans = 0, row_no_room_heaters = 1,
      row_is_draught_lobby = ''YES'', row_permeability_test_result = 3.2, row_no_storeys = 1,
      row_percentage_draught_stripped = 100, row_is_floor_suspended = ''sealed'',
      row_structure_type = ''timber_or_steel'',
      row_ventilation_method = ''mechanical_ventilation_heat_recovery'',
      row_heat_exchanger_efficiency = 80, row_infiltration_rate = 1.5\<rparr>"

definition openings_contribution :: "dwelling \<Rightarrow> real" where
  "openings_contribution d =
     row_no_chimneys d * 40 / row_building_volume d
     + row_no_open_flues d * 20 / row_building_volume d
     + row_no_fans d * 10 / row_building_volume d
     + row_no_room_heaters d * 40 / row_building_volume d
     + (if row_is_draught_lobby d = ''NO'' then 0.05 else 0)"

definition structure_contribution :: "dwelling \<Rightarrow> real" where
  "structure_contribution d =
     (if row_permeability_test_result d > 0 then row_permeability_test_result d
      else theoretical_structure_sum d)"

definition infiltration_formula :: "dwelling \<Rightarrow> real" where
  "infiltration_formula d =
     (openings_contribution d + structure_contribution d)
     * (1 - row_no_sides_sheltered d * 0.075)"

definition valid_dwelling :: "dwelling \<Rightarrow> bool" where
  "valid_dwelling d \<longleftrightarrow>
     row_building_volume d \<noteq> 0 \<and> valid_categories d \<and>
     row_is_draught_lobby d \<in> set (map fst yes_or_no_map)"

definition natural_ventilation_formula :: "real \<Rightarrow> real" where
  "natural_ventilation_formula x = (if x > 1 then x else 0.5 + 0.5 * x\<^sup>2)"

text \<open>
  One dwelling's twelve monthly heat losses in kWh, as the code multiplies them out, and
  the positions of the eight heating months among the twelve.
\<close>

definition kwh_row :: "real list \<Rightarrow> real list \<Rightarrow> num \<Rightarrow> num list" where
  "kwh_row ts hs v =
     map (\<lambda>(t, h). num_mul (num_mul (num_mul v (Some t)) (Some (1 / 1000))) (Some h))
       (zip ts hs)"

definition heating_positions :: "nat list" where
  "heating_positions = [0, 1, 2, 3, 4, 9, 10, 11]"

text \<open>The effective air-change rate of one dwelling, by its ventilation method.\<close>

definition effective_air_rate :: "dwelling \<Rightarrow> num" where
  "effective_air_rate d =
     (if row_ventilation_method d = ''natural_ventilation''
      then Some (natural_ventilation_formula (row_infiltration_rate d))
      else if row_ventilation_method d = ''positive_input_ventilation_from_loft''
      then (if row_building_volume d = 0 then None
            else Some (natural_ventilation_formula (row_infiltration_rate d)
                        + 20 / row_building_volume d))
      else if row_ventilation_method d = ''positive_input_ventilation_from_outside''
      then Some (max 0.5 (row_infiltration_rate d + 0.25))
      else if row_ventilation_method d = ''mechanical_ventilation_no_heat_recovery''
      then Some (row_infiltration_rate d + 0.5)
      else Some (row_infiltration_rate d
                  + 0.5 * (1 - row_heat_exchanger_efficiency d / 100)))"

text \<open>
  The five per-method groups of the code, concatenated in the order of \<open>pd.concat\<close>,
  before the final sort by label.
\<close>

definition effective_air_rate_parts :: "dwelling population \<Rightarrow> (int, num) series" where
  "effective_air_rate_parts pop =
     pd_concat
        [tab (\<lambda>d. Some (natural_ventilation_formula (row_infiltration_rate d)))
           (filter (\<lambda>r. row_ventilation_method (snd r) = ''natural_ventilation'') pop),
         tab (\<lambda>d. num_add (Some (natural_ventilation_formula (row_infiltration_rate d)))
                    (num_div (Some 20) (Some (row_building_volume d))))
           (filter (\<lambda>r. row_ventilation_method (snd r) = ''positive_input_ventilation_from_loft'') pop),
         tab (\<lambda>d. num_maximum (Some 0.5) (num_add (Some (row_infiltration_rate d)) (Some 0.25)))
           (filter (\<lambda>r. row_ventilation_method (snd r) = ''positive_input_ventilation_from_outside'') pop),
         tab (\<lambda>d. num_add (Some (row_infiltration_rate d)) (Some 0.5))
           (filter (\<lambda>r. row_ventilation_method (snd r) = ''mechanical_ventilation_no_heat_recovery'') pop),
         tab (\<lambda>d. num_add (Some (row_infiltration_rate d))
                    (num_mul (Some 0.5)
                       (num_sub (Some 1)
                          (num_div (Some (row_heat_exchanger_efficiency d)) (Some 100)))))
           (filter (\<lambda>r. row_ventilation_method (snd r) = ''mechanical_ventilation_heat_recovery'') pop)]"

section \<open>Properties of the Series operations\<close>

text \<open>The definitions that evaluate the infiltration pipeline on a concrete population.\<close>

lemmas model_defs =
  population_infiltration_rate_def calculate_infiltration_rate_def
  population_infiltration_rate_due_to_structure_def
  population_infiltration_rate_due_to_openings_def
  calculate_infiltration_rate_due_to_openings_def
  calculate_infiltration_rate_due_to_chimneys_def
  calculate_infiltration_rate_due_to_open_flues_def
  calculate_infiltration_rate_due_to_fans_def
  calculate_infiltration_rate_due_to_room_heaters_def
  calculate_infiltration_rate_due_to_opening_def
  calculate_infiltration_rate_due_to_draught_lobby_def
  calculate_infiltration_rate_due_to_structure_def
  calculate_infiltration_rate_due_to_structure_type_def
  calculate_infiltration_rate_due_to_suspended_floor_def
  calculate_infiltration_rate_due_to_height_def
  calculate_infiltration_rate_due_to_draught_def
  calculate_infiltration_rate_adjustment_factor_def
  column_def tab_def bind_err_def series_binop_def outer_join_op_def
  series_scalar_def series_map_def series_eq_def series_gt_def values_of_def index_def
  np_any_def np_all_def in1d_def unique_def np_where_def broadcast_shape_def
  broadcast_to_def pd_Series_def range_index_def lookup_all_def pad_missing_def
  num_add_def num_sub_def num_mul_def num_div_def num_op2_def yes_or_no_map_def
  acceptable_structure_types_def acceptable_suspended_floor_types_def

lemma index_tab: "index (tab g pop) = map fst pop"
  by (induction pop) (auto simp: index_def tab_def)

lemma values_tab: "values_of (tab g pop) = map (\<lambda>r. g (snd r)) pop"
  by (induction pop) (auto simp: values_of_def tab_def)

lemma length_tab: "length (tab g pop) = length pop"
  by (simp add: tab_def)

lemma series_scalar_tab: "series_scalar h (tab g pop) = tab (\<lambda>d. h (g d)) pop"
  by (induction pop) (auto simp: series_scalar_def tab_def)

lemma series_binop_tab:
  "series_binop f (tab g pop) (tab g' pop) = tab (\<lambda>d. f (g d) (g' d)) pop"
proof -
  have "map (\<lambda>(p, q). (fst p, f (snd p) (snd q))) (zip (tab g pop) (tab g' pop))
        = tab (\<lambda>d. f (g d) (g' d)) pop"
    by (induction pop) (auto simp: tab_def)
  then show ?thesis by (simp add: series_binop_def index_tab)
qed

lemma series_map_tab:
  "series_map d (tab g pop) = tab (\<lambda>r. case g r of None \<Rightarrow> None | Some x \<Rightarrow> map_of d x) pop"
  by (simp add: series_map_def series_scalar_tab)

lemma series_gt_tab:
  "series_gt (tab g pop) c = tab (\<lambda>r. case g r of None \<Rightarrow> False | Some x \<Rightarrow> x > c) pop"
  by (simp add: series_gt_def series_scalar_tab)

lemma series_eq_tab: "series_eq (tab g pop) c = tab (\<lambda>r. g r = Some c) pop"
  by (simp add: series_eq_def series_scalar_tab)

lemma series_getitem_tab:
  "series_getitem (tab g pop) (tab b pop) = Inr (tab g (filter (\<lambda>r. b (snd r)) pop))"
proof -
  have "map fst (filter (\<lambda>(p, m). snd m) (zip (tab g pop) (tab b pop)))
        = tab g (filter (\<lambda>r. b (snd r)) pop)"
    by (induction pop) (auto simp: tab_def)
  then show ?thesis by (simp add: series_getitem_def index_tab)
qed

lemma np_where_map:
  "np_where (map c xs) (map x xs) (map y xs) = Inr (map (\<lambda>d. if c d then x d else y d) xs)"
proof -
  have "map (\<lambda>(b, u, v). if b then u else v) (zip (map c xs) (zip (map x xs) (map y xs)))
        = map (\<lambda>d. if c d then x d else y d) xs"
    by (induction xs) auto
  then show ?thesis
    by (simp add: np_where_def broadcast_shape_def broadcast_to_def)
qed

lemma np_any_iff: "np_any (map c xs) \<longleftrightarrow> (\<exists>x\<in>set xs. c x)"
  by (simp add: np_any_def list_ex_iff)

lemma np_all_in1d_unique:
  "np_all (in1d (unique (map (\<lambda>x. Some (g x)) xs)) acc) \<longleftrightarrow> (\<forall>x\<in>set xs. g x \<in> set acc)"
  by (auto simp: np_all_def in1d_def unique_def list_all_iff)

lemma pd_Series_tab:
  "pd_Series (map (\<lambda>r. g (snd r)) pop) = tab g (zip (range_index (length pop)) (map snd pop))"
proof -
  have "\<And>ks. length ks = length pop \<Longrightarrow>
        zip ks (map (\<lambda>r. g (snd r)) pop) = tab g (zip ks (map snd pop))"
  proof (induction pop)
    case Nil then show ?case by (simp add: tab_def)
  next
    case (Cons r pop)
    then obtain k ks' where "ks = k # ks'" by (cases ks) auto
    with Cons show ?case by (simp add: tab_def)
  qed
  then show ?thesis by (simp add: pd_Series_def range_index_def)
qed

lemma num_simps:
  "num_add (Some a) (Some b) = Some (a + b)"
  "num_sub (Some a) (Some b) = Some (a - b)"
  "num_mul (Some a) (Some b) = Some (a * b)"
  "b \<noteq> 0 \<Longrightarrow> num_div (Some a) (Some b) = Some (a / b)"
  by (simp_all add: num_add_def num_sub_def num_mul_def num_div_def num_op2_def)

lemma structure_type_lookup:
  "s \<in> set acceptable_structure_types \<Longrightarrow>
   map_of [(''unknown'', u), (''masonry'', 0.35), (''timber_or_steel'', 0.25), (''concrete'', 0)] s
   = Some (if s = ''unknown'' then u else structure_type_rate s)"
  by (auto simp: acceptable_structure_types_def structure_type_rate_def)

lemma suspended_floor_lookup:
  "s \<in> set acceptable_suspended_floor_types \<Longrightarrow>
   map_of [(''none'', 0), (''sealed'', 0.1), (''unsealed'', 0.2)] s = Some (suspended_floor_rate s)"
  by (auto simp: acceptable_suspended_floor_types_def suspended_floor_rate_def)

lemma tab_cong: "(\<And>r. r \<in> set pop \<Longrightarrow> g (snd r) = h (snd r)) \<Longrightarrow> tab g pop = tab h pop"
  by (auto simp: tab_def)

lemma raw_structure_value_valid:
  assumes "valid_categories d"
  shows "raw_structure_value d = structure_value d"
proof -
  have a: "row_structure_type d \<in> set acceptable_structure_types"
    and b: "row_is_floor_suspended d \<in> set acceptable_suspended_floor_types"
    using assms by (auto simp: valid_categories_def)
  show ?thesis
    unfolding raw_structure_value_def structure_type_lookup[OF a] suspended_floor_lookup[OF b]
    by (simp add: num_simps structure_value_def theoretical_structure_sum_def
          structure_type_rate_def)
qed

lemma structure_stage_raw:
  assumes st: "\<forall>r\<in>set pop. row_structure_type (snd r) \<in> set acceptable_structure_types"
    and fl: "\<forall>r\<in>set pop. row_is_floor_suspended (snd r) \<in> set acceptable_suspended_floor_types"
  shows "population_infiltration_rate_due_to_structure pop =
         Inr (pd_Series (map (\<lambda>r. raw_structure_value (snd r)) pop))"
  unfolding population_infiltration_rate_due_to_structure_def
          calculate_infiltration_rate_due_to_structure_def
          calculate_infiltration_rate_due_to_structure_type_def
          calculate_infiltration_rate_due_to_suspended_floor_def
          calculate_infiltration_rate_due_to_height_def
          calculate_infiltration_rate_due_to_draught_def
          column_def values_tab np_all_in1d_unique eqTrueI[OF st] eqTrueI[OF fl]
          not_True_eq_False if_False bind_err_def sum.case Let_def
          series_map_tab option.case series_scalar_tab series_binop_tab series_gt_tab
          np_where_map raw_structure_value_def
  by (rule refl)

lemma structure_stage:
  "population_infiltration_rate_due_to_structure pop =
     (if \<forall>r\<in>set pop. valid_categories (snd r)
      then Inr (pd_Series (map (\<lambda>r. structure_value (snd r)) pop))
      else Inl ValueError)"
proof (cases "\<forall>r\<in>set pop. valid_categories (snd r)")
  case True
  have st: "\<forall>r\<in>set pop. row_structure_type (snd r) \<in> set acceptable_structure_types"
    and fl: "\<forall>r\<in>set pop. row_is_floor_suspended (snd r) \<in> set acceptable_suspended_floor_types"
    using True by (auto simp: valid_categories_def)
  have eq: "map (\<lambda>r. raw_structure_value (snd r)) pop = map (\<lambda>r. structure_value (snd r)) pop"
    using True by (auto simp: raw_structure_value_valid)
  show ?thesis
    unfolding structure_stage_raw[OF st fl] eq using True by simp
next
  case False
  then have "\<not> (\<forall>r\<in>set pop. row_structure_type (snd r) \<in> set acceptable_structure_types) \<or>
             \<not> (\<forall>r\<in>set pop. row_is_floor_suspended (snd r) \<in> set acceptable_suspended_floor_types)"
    by (auto simp: valid_categories_def)
  then show ?thesis
    using False
    by (auto simp: population_infiltration_rate_due_to_structure_def
          calculate_infiltration_rate_due_to_structure_def
          calculate_infiltration_rate_due_to_structure_type_def
          calculate_infiltration_rate_due_to_suspended_floor_def
          column_def values_tab np_all_in1d_unique bind_err_def)
qed

lemma zero_volume_check:
  "np_any (values_of (series_eq (column row_building_volume pop) 0))
   \<longleftrightarrow> (\<exists>r\<in>set pop. row_building_volume (snd r) = 0)"
  by (simp add: column_def series_eq_tab values_tab np_any_iff)

lemma zero_volume_check_tab:
  "np_any (values_of (series_eq (tab (\<lambda>d. Some (row_building_volume d)) pop) 0))
   \<longleftrightarrow> (\<exists>r\<in>set pop. row_building_volume (snd r) = 0)"
  by (simp add: series_eq_tab values_tab np_any_iff)

lemma openings_stage_raw:
  assumes "\<not> (\<exists>r\<in>set pop. row_building_volume (snd r) = 0)"
  shows "population_infiltration_rate_due_to_openings pop = Inr (tab raw_openings_value pop)"
  unfolding population_infiltration_rate_due_to_openings_def
    calculate_infiltration_rate_due_to_openings_def
    calculate_infiltration_rate_due_to_chimneys_def
    calculate_infiltration_rate_due_to_open_flues_def
    calculate_infiltration_rate_due_to_fans_def
    calculate_infiltration_rate_due_to_room_heaters_def
    calculate_infiltration_rate_due_to_opening_def
    calculate_infiltration_rate_due_to_draught_lobby_def
    Let_def zero_volume_check_tab Eq_FalseI[OF assms] if_False bind_err_def sum.case
    column_def series_map_tab option.case series_scalar_tab series_binop_tab
    raw_openings_value_def
  by (rule refl)

lemma openings_stage:
  "population_infiltration_rate_due_to_openings pop =
     (if \<exists>r\<in>set pop. row_building_volume (snd r) = 0 then Inl DivisionByZero
      else Inr (tab raw_openings_value pop))"
proof (cases "\<exists>r\<in>set pop. row_building_volume (snd r) = 0")
  case True
  then show ?thesis
    by (simp add: population_infiltration_rate_due_to_openings_def
        calculate_infiltration_rate_due_to_openings_def
        calculate_infiltration_rate_due_to_chimneys_def
        calculate_infiltration_rate_due_to_opening_def zero_volume_check bind_err_def)
next
  case False
  then show ?thesis by (simp add: openings_stage_raw)
qed

lemma infiltration_rate_stages:
  "population_infiltration_rate pop =
     bind_err (population_infiltration_rate_due_to_openings pop) (\<lambda>a.
     bind_err (population_infiltration_rate_due_to_structure pop) (\<lambda>b.
       Inr (calculate_infiltration_rate_adjustment_factor (series_binop num_add a b)
              (column row_no_sides_sheltered pop))))"
  by (simp add: population_infiltration_rate_def calculate_infiltration_rate_def
        population_infiltration_rate_due_to_openings_def
        population_infiltration_rate_due_to_structure_def)

section \<open>Input errors of the infiltration pipeline\<close>

text \<open>
  Claim C1, as amended. For every dwelling population, \<open>calculate_infiltration_rate\<close>
  raises if and only if the building volume of some row is exactly zero, or the
  structure type or the suspended-floor type of some row is outside its accepted list.
  The result is either the exception or the whole output Series, never a part of it.
  (A negative volume is not rejected, the ventilation method is not an input of this
  function, and the draught-lobby flag is not checked.)
\<close>

theorem infiltration_rate_raises_iff:
  "isl (population_infiltration_rate pop) \<longleftrightarrow>
     (\<exists>r\<in>set pop. row_building_volume (snd r) = 0
        \<or> row_structure_type (snd r) \<notin> set acceptable_structure_types
        \<or> row_is_floor_suspended (snd r) \<notin> set acceptable_suspended_floor_types)"
  unfolding infiltration_rate_stages openings_stage structure_stage
  by (auto simp: bind_err_def valid_categories_def)

theorem infiltration_rate_raises_iff_witness:
  "isl (population_infiltration_rate
          [(0, example_dwelling), (1, example_dwelling\<lparr>row_building_volume := 0\<rparr>)])
   \<and> \<not> isl (population_infiltration_rate [(0, example_dwelling)])"
  using infiltration_rate_raises_iff
          [of "[(0, example_dwelling), (1, example_dwelling\<lparr>row_building_volume := 0\<rparr>)]"]
    infiltration_rate_raises_iff [of "[(0, example_dwelling)]"]
  by (auto simp: example_dwelling_def acceptable_structure_types_def
        acceptable_suspended_floor_types_def)

text \<open>
  Claim C1 as stated fails: a dwelling with the negative volume -200 and accepted
  categories is computed, not rejected.
\<close>

theorem negative_volume_not_rejected:
  "row_building_volume (example_dwelling\<lparr>row_building_volume := - 200\<rparr>) \<le> 0
   \<and> population_infiltration_rate [(0, example_dwelling\<lparr>row_building_volume := - 200\<rparr>)]
       = Inr [(0, Some 0.2975)]"
  by (simp add: model_defs example_dwelling_def)

section \<open>The measured permeability overrides the theoretical structure sum\<close>

text \<open>
  Claim C4. On a population whose structure and suspended-floor types are accepted,
  the structure stage returns one value per dwelling, in row order: the permeability
  test result of the dwelling when that is positive, whatever its storeys, structure
  type, floor type and draught stripping, and otherwise the theoretical sum
  (storeys - 1) * 0.1 + structure-type rate + suspended-floor rate
  + (0.25 - 0.2 * pct / 100). The choice is made row by row.
\<close>

theorem structure_override_per_dwelling:
  assumes "\<forall>r\<in>set pop. valid_categories (snd r)"
  shows "\<exists>out. population_infiltration_rate_due_to_structure pop = Inr out \<and>
           values_of out =
             map (\<lambda>r. if row_permeability_test_result (snd r) > 0
                      then Some (row_permeability_test_result (snd r))
                      else Some (theoretical_structure_sum (snd r))) pop"
  using assms
  by (simp add: structure_stage pd_Series_def values_of_def range_index_def structure_value_def)

theorem structure_override_per_dwelling_witness:
  "valid_categories example_dwelling_b \<and> valid_categories example_dwelling \<and>
   (\<exists>out. population_infiltration_rate_due_to_structure
             [(7, example_dwelling_b), (9, example_dwelling)] = Inr out
          \<and> values_of out = [Some 3.2, Some 0.6])"
  using structure_override_per_dwelling [of "[(7, example_dwelling_b), (9, example_dwelling)]"]
  by (simp add: example_dwelling_def example_dwelling_b_def valid_categories_def
        acceptable_structure_types_def acceptable_suspended_floor_types_def
        theoretical_structure_sum_def structure_type_rate_def suspended_floor_rate_def)

section \<open>The infiltration rate on a population labelled 0..N-1\<close>

text \<open>
  When the rows are labelled 0..N-1 the relabelling of the structure stage changes
  nothing, and every valid dwelling gets
  (openings + structure) * (1 - sheltered sides * 0.075).
\<close>

lemma raw_openings_value_valid:
  assumes "row_building_volume d \<noteq> 0" "row_is_draught_lobby d \<in> set (map fst yes_or_no_map)"
  shows "raw_openings_value d = Some (openings_contribution d)"
  using assms
  by (auto simp: raw_openings_value_def openings_contribution_def num_simps yes_or_no_map_def)

lemma pd_Series_on_range_index:
  assumes "map fst pop = range_index (length pop)"
  shows "pd_Series (map (\<lambda>r. g (snd r)) pop) = tab g pop"
proof -
  have "zip (range_index (length pop)) (map snd pop) = pop"
    using assms zip_map_fst_snd[of pop] by simp
  then show ?thesis by (simp add: pd_Series_tab)
qed

lemma infiltration_rate_on_range_index:
  assumes idx: "map fst pop = range_index (length pop)"
    and ok: "\<forall>r\<in>set pop. valid_dwelling (snd r)"
  shows "population_infiltration_rate pop = Inr (tab (\<lambda>d. Some (infiltration_formula d)) pop)"
proof -
  have nz: "\<not> (\<exists>r\<in>set pop. row_building_volume (snd r) = 0)"
    and vc: "\<forall>r\<in>set pop. valid_categories (snd r)"
    using ok by (auto simp: valid_dwelling_def)
  have "population_infiltration_rate pop =
        Inr (tab (\<lambda>d. num_mul (num_add (raw_openings_value d) (structure_value d))
                        (num_sub (Some 1) (num_mul (Some (row_no_sides_sheltered d)) (Some 0.075))))
               pop)"
    unfolding infiltration_rate_stages openings_stage structure_stage
      pd_Series_on_range_index[OF idx] calculate_infiltration_rate_adjustment_factor_def column_def
    using nz vc by (simp add: bind_err_def series_binop_tab series_scalar_tab)
  also have "tab (\<lambda>d. num_mul (num_add (raw_openings_value d) (structure_value d))
                        (num_sub (Some 1) (num_mul (Some (row_no_sides_sheltered d)) (Some 0.075))))
               pop = tab (\<lambda>d. Some (infiltration_formula d)) pop"
  proof (rule tab_cong)
    fix r assume "r \<in> set pop"
    then have v: "valid_dwelling (snd r)" using ok by blast
    then have "raw_openings_value (snd r) = Some (openings_contribution (snd r))"
      by (simp add: valid_dwelling_def raw_openings_value_valid)
    then show "num_mul (num_add (raw_openings_value (snd r)) (structure_value (snd r)))
                 (num_sub (Some 1) (num_mul (Some (row_no_sides_sheltered (snd r))) (Some 0.075)))
               = Some (infiltration_formula (snd r))"
      by (simp add: structure_value_def num_simps infiltration_formula_def
            structure_contribution_def)
  qed
  finally show ?thesis .
qed

lemma series_where_scalar:
  "series_where s (series_scalar c s) (series_scalar h s)
   = series_scalar (\<lambda>v. if c v then v else h v) s"
  by (induction s) (auto simp: series_where_def series_scalar_def)

section \<open>The natural-ventilation formula\<close>

lemma natural_ventilation_series:
  "calculate_natural_ventilation_air_rate_change s
     = series_scalar (map_option natural_ventilation_formula) s"
proof -
  have "(\<lambda>v. if (case v of None \<Rightarrow> False | Some x \<Rightarrow> 1 < x) then v
             else num_add (Some 0.5) (num_mul (num_pow v 2) (Some 0.5)))
        = map_option natural_ventilation_formula"
    by (rule ext) (auto simp: natural_ventilation_formula_def num_pow_def num_add_def
          num_mul_def num_op2_def split: option.splits)
  then show ?thesis
    unfolding calculate_natural_ventilation_air_rate_change_def series_gt_def
      series_where_scalar by (rule arg_cong2[OF _ refl])
qed

text \<open>
  Claim C6. For every infiltration-rate Series the natural-ventilation air-change rate
  keeps the index and is, row by row, the infiltration rate itself when that is
  strictly above 1 and 0.5 + 0.5 * infiltration^2 otherwise (NaN stays NaN). In
  particular 0.8 gives 0.82, 1.5 gives 1.5, and exactly 1 takes the squared branch
  and gives 1.
\<close>

theorem natural_ventilation_air_rate_change:
  "calculate_natural_ventilation_air_rate_change s
     = series_scalar (map_option natural_ventilation_formula) s
   \<and> natural_ventilation_formula 0.8 = 0.82
   \<and> natural_ventilation_formula 1.5 = 1.5
   \<and> natural_ventilation_formula 1 = 1"
proof -
  have "natural_ventilation_formula 0.8 = 0.82"
    by (simp add: natural_ventilation_formula_def power2_eq_square)
  moreover have "natural_ventilation_formula 1.5 = 1.5"
    by (simp add: natural_ventilation_formula_def)
  moreover have "natural_ventilation_formula 1 = 1"
    by (simp add: natural_ventilation_formula_def)
  ultimately show ?thesis
    using natural_ventilation_series [of s] by blast
qed

theorem natural_ventilation_air_rate_change_witness:
  "calculate_natural_ventilation_air_rate_change
     [(0, Some 0.8), (1, Some 1.5), (2, Some 1), (3, None)]
   = [(0, Some 0.82), (1, Some 1.5), (2, Some 1), (3, None)]"
  using natural_ventilation_air_rate_change
          [of "[(0, Some 0.8), (1, Some 1.5), (2, Some 1), (3, None)]"]
  by (simp add: series_scalar_def)

section \<open>Partition by ventilation method and recombination\<close>

lemma methods_check:
  "np_all (in1d (unique (values_of (column row_ventilation_method pop))) acceptable_ventilation_methods)
   \<longleftrightarrow> (\<forall>r\<in>set pop. row_ventilation_method (snd r) \<in> set acceptable_ventilation_methods)"
  by (simp add: column_def values_tab np_all_in1d_unique)

lemma five_way_partition_mset:
  assumes "\<And>r. r \<in> set pop \<Longrightarrow>
      (Q1 r \<and> \<not> Q2 r \<and> \<not> Q3 r \<and> \<not> Q4 r \<and> \<not> Q5 r \<and> e (snd r) = f1 (snd r)) \<or>
      (\<not> Q1 r \<and> Q2 r \<and> \<not> Q3 r \<and> \<not> Q4 r \<and> \<not> Q5 r \<and> e (snd r) = f2 (snd r)) \<or>
      (\<not> Q1 r \<and> \<not> Q2 r \<and> Q3 r \<and> \<not> Q4 r \<and> \<not> Q5 r \<and> e (snd r) = f3 (snd r)) \<or>
      (\<not> Q1 r \<and> \<not> Q2 r \<and> \<not> Q3 r \<and> Q4 r \<and> \<not> Q5 r \<and> e (snd r) = f4 (snd r)) \<or>
      (\<not> Q1 r \<and> \<not> Q2 r \<and> \<not> Q3 r \<and> \<not> Q4 r \<and> Q5 r \<and> e (snd r) = f5 (snd r))"
  shows "mset (pd_concat [tab f1 (filter Q1 pop), tab f2 (filter Q2 pop), tab f3 (filter Q3 pop),
                          tab f4 (filter Q4 pop), tab f5 (filter Q5 pop)])
         = mset (tab e pop)"
  using assms
proof (induction pop)
  case Nil
  then show ?case by (simp add: pd_concat_def tab_def)
next
  case (Cons r pop)
  have IH: "mset (pd_concat [tab f1 (filter Q1 pop), tab f2 (filter Q2 pop),
                tab f3 (filter Q3 pop), tab f4 (filter Q4 pop), tab f5 (filter Q5 pop)])
            = mset (tab e pop)"
    using Cons by simp
  have hd: "(Q1 r \<and> \<not> Q2 r \<and> \<not> Q3 r \<and> \<not> Q4 r \<and> \<not> Q5 r \<and> e (snd r) = f1 (snd r)) \<or>
      (\<not> Q1 r \<and> Q2 r \<and> \<not> Q3 r \<and> \<not> Q4 r \<and> \<not> Q5 r \<and> e (snd r) = f2 (snd r)) \<or>
      (\<not> Q1 r \<and> \<not> Q2 r \<and> Q3 r \<and> \<not> Q4 r \<and> \<not> Q5 r \<and> e (snd r) = f3 (snd r)) \<or>
      (\<not> Q1 r \<and> \<not> Q2 r \<and> \<not> Q3 r \<and> Q4 r \<and> \<not> Q5 r \<and> e (snd r) = f4 (snd r)) \<or>
      (\<not> Q1 r \<and> \<not> Q2 r \<and> \<not> Q3 r \<and> \<not> Q4 r \<and> Q5 r \<and> e (snd r) = f5 (snd r))"
    using Cons.prems[of r] by simp
  obtain k d where r: "r = (k, d)" by (cases r)
  from hd IH show ?case
    by (auto simp: pd_concat_def tab_def r)
qed

lemma sort_key_unique:
  assumes m: "mset xs = mset ys" and s: "sorted (map f ys)" and d: "distinct (map f ys)"
  shows "sort_key f xs = ys"
proof (rule properties_for_sort_key[OF m[symmetric] _ s])
  fix k assume k: "k \<in> set ys"
  have "filter (\<lambda>x. f k = f x) ys = [k]"
    using d k
  proof (induction ys)
    case Nil then show ?case by simp
  next
    case (Cons y ys)
    then show ?case by (auto simp: image_iff intro: filter_False)
  qed
  moreover have "mset (filter (\<lambda>x. f k = f x) xs) = mset (filter (\<lambda>x. f k = f x) ys)"
    using m by simp
  ultimately have "mset (filter (\<lambda>x. f k = f x) xs) = {#k#}"
    by simp
  then have "filter (\<lambda>x. f k = f x) xs = [k]"
    by (simp only: mset_single_iff)
  with \<open>filter (\<lambda>x. f k = f x) ys = [k]\<close>
  show "filter (\<lambda>x. f k = f x) ys = filter (\<lambda>x. f k = f x) xs"
    by simp
qed

lemma effective_air_rate_stage:
  assumes "\<forall>r\<in>set pop. row_ventilation_method (snd r) \<in> set acceptable_ventilation_methods"
  shows "population_effective_air_rate_change pop = Inr (sort_index (effective_air_rate_parts pop))"
  unfolding population_effective_air_rate_change_def calculate_effective_air_rate_change_def
    methods_check
  using assms
  by (simp add: column_def series_eq_tab series_getitem_tab bind_err_def
      natural_ventilation_series calculate_loft_ventilation_air_rate_change_def
      calculate_outside_ventilation_air_rate_change_def
      calculate_mech_ventilation_air_rate_change_def
      calculate_heat_recovery_ventilation_air_rate_change_def
      series_scalar_tab series_binop_tab Let_def effective_air_rate_parts_def)

lemma effective_air_rate_parts_mset:
  assumes ok: "\<forall>r\<in>set pop. row_ventilation_method (snd r) \<in> set acceptable_ventilation_methods"
  shows "mset (effective_air_rate_parts pop) = mset (tab effective_air_rate pop)"
  unfolding effective_air_rate_parts_def
proof (rule five_way_partition_mset)
  fix r assume "r \<in> set pop"
  then have "row_ventilation_method (snd r) = ''natural_ventilation'' \<or>
     row_ventilation_method (snd r) = ''positive_input_ventilation_from_loft'' \<or>
     row_ventilation_method (snd r) = ''positive_input_ventilation_from_outside'' \<or>
     row_ventilation_method (snd r) = ''mechanical_ventilation_no_heat_recovery'' \<or>
     row_ventilation_method (snd r) = ''mechanical_ventilation_heat_recovery''"
    using ok by (auto simp: acceptable_ventilation_methods_def)
  then show "(row_ventilation_method (snd r) = ''natural_ventilation'' \<and>
         row_ventilation_method (snd r) \<noteq> ''positive_input_ventilation_from_loft'' \<and>
         row_ventilation_method (snd r) \<noteq> ''positive_input_ventilation_from_outside'' \<and>
         row_ventilation_method (snd r) \<noteq> ''mechanical_ventilation_no_heat_recovery'' \<and>
         row_ventilation_method (snd r) \<noteq> ''mechanical_ventilation_heat_recovery'' \<and>
         effective_air_rate (snd r) = Some (natural_ventilation_formula (row_infiltration_rate (snd r)))) \<or>
        (row_ventilation_method (snd r) \<noteq> ''natural_ventilation'' \<and>
         row_ventilation_method (snd r) = ''positive_input_ventilation_from_loft'' \<and>
         row_ventilation_method (snd r) \<noteq> ''positive_input_ventilation_from_outside'' \<and>
         row_ventilation_method (snd r) \<noteq> ''mechanical_ventilation_no_heat_recovery'' \<and>
         row_ventilation_method (snd r) \<noteq> ''mechanical_ventilation_heat_recovery'' \<and>
         effective_air_rate (snd r) =
           num_add (Some (natural_ventilation_formula (row_infiltration_rate (snd r))))
                    (num_div (Some 20) (Some (row_building_volume (snd r))))) \<or>
        (row_ventilation_method (snd r) \<noteq> ''natural_ventilation'' \<and>
         row_ventilation_method (snd r) \<noteq> ''positive_input_ventilation_from_loft'' \<and>
         row_ventilation_method (snd r) = ''positive_input_ventilation_from_outside'' \<and>
         row_ventilation_method (snd r) \<noteq> ''mechanical_ventilation_no_heat_recovery'' \<and>
         row_ventilation_method (snd r) \<noteq> ''mechanical_ventilation_heat_recovery'' \<and>
         effective_air_rate (snd r) =
           num_maximum (Some 0.5) (num_add (Some (row_infiltration_rate (snd r))) (Some 0.25))) \<or>
        (row_ventilation_method (snd r) \<noteq> ''natural_ventilation'' \<and>
         row_ventilation_method (snd r) \<noteq> ''positive_input_ventilation_from_loft'' \<and>
         row_ventilation_method (snd r) \<noteq> ''positive_input_ventilation_from_outside'' \<and>
         row_ventilation_method (snd r) = ''mechanical_ventilation_no_heat_recovery'' \<and>
         row_ventilation_method (snd r) \<noteq> ''mechanical_ventilation_heat_recovery'' \<and>
         effective_air_rate (snd r) = num_add (Some (row_infiltration_rate (snd r))) (Some 0.5)) \<or>
        (row_ventilation_method (snd r) \<noteq> ''natural_ventilation'' \<and>
         row_ventilation_method (snd r) \<noteq> ''positive_input_ventilation_from_loft'' \<and>
         row_ventilation_method (snd r) \<noteq> ''positive_input_ventilation_from_outside'' \<and>
         row_ventilation_method (snd r) \<noteq> ''mechanical_ventilation_no_heat_recovery'' \<and>
         row_ventilation_method (snd r) = ''mechanical_ventilation_heat_recovery'' \<and>
         effective_air_rate (snd r) =
           num_add (Some (row_infiltration_rate (snd r)))
                    (num_mul (Some 0.5)
                       (num_sub (Some 1)
                          (num_div (Some (row_heat_exchanger_efficiency (snd r))) (Some 100)))))"
    by (elim disjE)
       (simp_all add: effective_air_rate_def num_add_def num_sub_def num_mul_def num_div_def
          num_maximum_def num_op2_def)
qed

text \<open>
  Claim C3. For every population whose ventilation methods are among the five accepted
  ones, in any mix, \<open>calculate_effective_air_rate_change\<close> returns a Series with as many
  rows as the input and the same index labels (as a multiset), ordered by label; each
  row is a dwelling's label with the rate of that dwelling's method. When the input
  index is increasing without repetition the output is, row for row, the input index
  with each dwelling's rate.
\<close>

theorem effective_air_rate_change_recombines:
  assumes ok: "\<forall>r\<in>set pop. row_ventilation_method (snd r) \<in> set acceptable_ventilation_methods"
  shows "\<exists>out. population_effective_air_rate_change pop = Inr out
           \<and> length out = length pop
           \<and> mset (index out) = mset (map fst pop)
           \<and> sorted (index out)
           \<and> mset out = mset (tab effective_air_rate pop)
           \<and> (sorted (map fst pop) \<and> distinct (map fst pop)
                \<longrightarrow> out = tab effective_air_rate pop)"
proof -
  let ?out = "sort_index (effective_air_rate_parts pop)"
  have m: "mset ?out = mset (tab effective_air_rate pop)"
    by (simp add: sort_index_def effective_air_rate_parts_mset[OF ok])
  have len: "length ?out = length pop"
    using arg_cong[OF m, of size] by (simp add: length_tab)
  have "mset (map fst ?out) = mset (map fst (tab effective_air_rate pop))"
    using m by (metis mset_map)
  then have idx: "mset (index ?out) = mset (map fst pop)"
    unfolding index_def index_tab[of effective_air_rate pop, unfolded index_def] .
  have srt: "sorted (index ?out)"
    by (simp add: index_def sort_index_def)
  have ex: "sorted (map fst pop) \<and> distinct (map fst pop) \<longrightarrow> ?out = tab effective_air_rate pop"
  proof
    assume a: "sorted (map fst pop) \<and> distinct (map fst pop)"
    have k: "map fst (tab effective_air_rate pop) = map fst pop"
      using index_tab[of effective_air_rate pop] by (simp add: index_def)
    show "?out = tab effective_air_rate pop"
      unfolding sort_index_def
      by (rule sort_key_unique) (use a k effective_air_rate_parts_mset[OF ok] in simp_all)
  qed
  show ?thesis
    using effective_air_rate_stage[OF ok] len idx srt m ex by blast
qed

theorem effective_air_rate_change_recombines_witness:
  "population_effective_air_rate_change
     [(0, example_dwelling),
      (1, example_dwelling\<lparr>row_ventilation_method := ''positive_input_ventilation_from_loft''\<rparr>),
      (2, example_dwelling\<lparr>row_ventilation_method := ''positive_input_ventilation_from_outside''\<rparr>),
      (3, example_dwelling\<lparr>row_ventilation_method := ''mechanical_ventilation_no_heat_recovery''\<rparr>),
      (4, example_dwelling_b)]
   = Inr [(0, Some 0.82), (1, Some 0.92), (2, Some 1.05), (3, Some 1.3), (4, Some 1.6)]"
  using effective_air_rate_change_recombines
    [of "[(0, example_dwelling),
      (1, example_dwelling\<lparr>row_ventilation_method := ''positive_input_ventilation_from_loft''\<rparr>),
      (2, example_dwelling\<lparr>row_ventilation_method := ''positive_input_ventilation_from_outside''\<rparr>),
      (3, example_dwelling\<lparr>row_ventilation_method := ''mechanical_ventilation_no_heat_recovery''\<rparr>),
      (4, example_dwelling_b)]"]
  by (auto simp: example_dwelling_def example_dwelling_b_def acceptable_ventilation_methods_def
        tab_def effective_air_rate_def natural_ventilation_formula_def power2_eq_square)

section \<open>Populations whose index is not 0..N-1\<close>

text \<open>
  Claim C2 at a failing input. The structure stage returns its values under the labels
  0..N-1 whatever the input index was, so on the one-dwelling population labelled 5
  the openings stage is labelled 5, the structure stage is labelled 0, and their sum,
  aligned on labels, has the two rows 0 and 5, both NaN. The claim asks for the one
  row labelled 5.
\<close>

theorem infiltration_rate_index_not_preserved:
  "population_infiltration_rate_due_to_openings [(5, example_dwelling)] = Inr [(5, Some 0.35)]
   \<and> population_infiltration_rate_due_to_structure [(5, example_dwelling)] = Inr [(0, Some 0.6)]
   \<and> population_infiltration_rate [(5, example_dwelling)] = Inr [(0, None), (5, None)]"
  by (simp add: model_defs example_dwelling_def)

text \<open>
  Claim C7 at a failing input. On the two valid dwellings labelled 1 and 2 the result has
  three rows; the row labelled 1 combines the openings of the first dwelling with the
  structure value of the second, giving 3.0175 where the formula of the claim gives
  0.8075 for the first dwelling, and the second dwelling (formula 3.145) gets NaN.
\<close>

theorem infiltration_rate_misaligned_on_shifted_index:
  "population_infiltration_rate [(1, example_dwelling), (2, example_dwelling_b)]
     = Inr [(0, None), (1, Some 3.0175), (2, None)]
   \<and> valid_dwelling example_dwelling \<and> valid_dwelling example_dwelling_b
   \<and> infiltration_formula example_dwelling = 0.8075
   \<and> infiltration_formula example_dwelling_b = 3.145"
  by (simp add: model_defs example_dwelling_def example_dwelling_b_def valid_dwelling_def
        valid_categories_def infiltration_formula_def openings_contribution_def
        structure_contribution_def theoretical_structure_sum_def structure_type_rate_def
        suspended_floor_rate_def)

section \<open>The draught-lobby lookup\<close>

text \<open>
  Claim C8 at a failing input. The draught-lobby flag \<open>MAYBE\<close> is neither \<open>YES\<close> nor \<open>NO\<close>;
  the lookup raises nothing and maps it to NaN, and the whole infiltration rate of the
  dwelling is then NaN.
\<close>

theorem draught_lobby_unchecked:
  "calculate_infiltration_rate_due_to_draught_lobby [(0, Some ''MAYBE'')] = [(0, None)]
   \<and> population_infiltration_rate [(0, example_dwelling\<lparr>row_is_draught_lobby := ''MAYBE''\<rparr>)]
       = Inr [(0, None)]"
  by (simp add: model_defs example_dwelling_def)

section \<open>Heat loss per year\<close>

lemma length_concat_blocks:
  "(\<And>x. x \<in> set xs \<Longrightarrow> length (F x) = length (G x)) \<Longrightarrow>
   length (concat (map F xs)) = length (concat (map G xs))"
  by (induction xs) auto

lemma zip_concat_blocks:
  "(\<And>x. x \<in> set xs \<Longrightarrow> length (F x) = length (G x)) \<Longrightarrow>
   zip (concat (map F xs)) (concat (map G xs)) = concat (map (\<lambda>x. zip (F x) (G x)) xs)"
  by (induction xs) auto

lemma np_binop_same_length:
  "length xs = length ys \<Longrightarrow> np_binop f xs ys = Inr (map (\<lambda>(x, y). f x y) (zip xs ys))"
  by (simp add: np_binop_def broadcast_shape_def broadcast_to_def)

lemma np_binop_blocks:
  assumes "\<And>x. x \<in> set xs \<Longrightarrow> length (F x) = length (G x)"
  shows "np_binop f (concat (map F xs)) (concat (map G xs))
         = Inr (concat (map (\<lambda>x. map (\<lambda>(a, b). f a b) (zip (F x) (G x))) xs))"
  using assms
  by (simp add: np_binop_same_length length_concat_blocks[of xs F G] zip_concat_blocks
        map_concat comp_def)

lemma np_tile_blocks: "np_tile vs (length xs) = concat (map (\<lambda>x. vs) xs)"
  by (simp add: np_tile_def map_replicate_const)

lemma np_repeat_tab:
  "values_of (np_repeat (tab g pop) n) = concat (map (\<lambda>r. replicate n (g (snd r))) pop)"
  by (induction pop) (auto simp: np_repeat_def values_of_def tab_def)

lemma filter_concat_blocks:
  "filter P (concat (map F xs)) = concat (map (\<lambda>x. filter P (F x)) xs)"
  by (induction xs) auto

lemma concat_singletons: "concat (map (\<lambda>x. [g x]) xs) = map g xs"
  by (induction xs) auto

lemma count_list_replicate: "count_list (replicate n x) y = (if x = y then n else 0)"
  by (induction n) auto

lemma cumcount_from_block:
  "cumcount_from seen (replicate n l @ rest)
   = map (\<lambda>i. count_list seen l + i) [0..<n] @ cumcount_from (replicate n l @ seen) rest"
proof (induction n arbitrary: seen)
  case 0
  then show ?case by simp
next
  case (Suc n)
  have "map (\<lambda>i. count_list seen l + i) [0..<Suc n]
        = count_list seen l # map (\<lambda>i. count_list (l # seen) l + i) [0..<n]"
    by (simp add: upt_conv_Cons map_Suc_upt[symmetric] del: upt_Suc)
  then show ?case
    using Suc[of "l # seen"] by (simp add: replicate_app_Cons_same del: upt_Suc)
qed

lemma lookup_all_append: "lookup_all k (a @ b) = lookup_all k a @ lookup_all k b"
  by (simp add: lookup_all_def)

lemma lookup_all_beyond:
  "m \<le> n \<Longrightarrow> lookup_all (int n) (zip (range_index m) xs) = []"
  by (auto simp: lookup_all_def range_index_def filter_empty_conv dest!: set_zip_leftD)

lemma zip_range_snoc:
  "zip (range_index (Suc (length xs))) (xs @ [x])
   = zip (range_index (length xs)) xs @ [(int (length xs), x)]"
  by (simp add: range_index_def)

lemma lookup_all_range:
  "i < length xs \<Longrightarrow> lookup_all (int i) (zip (range_index (length xs)) xs) = [xs ! i]"
proof (induction xs rule: rev_induct)
  case Nil
  then show ?case by simp
next
  case (snoc x xs)
  show ?case
  proof (cases "i < length xs")
    case True
    then show ?thesis
      using snoc.IH by (simp add: zip_range_snoc lookup_all_append nth_append lookup_all_def)
  next
    case False
    then have i: "i = length xs" using snoc.prems by simp
    show ?thesis
      by (simp add: i zip_range_snoc lookup_all_append lookup_all_beyond)
         (simp add: lookup_all_def)
  qed
qed

lemma sort_remdups_range:
  assumes "set ks = set (range_index n)"
  shows "sort (remdups ks) = range_index n"
proof -
  have "sorted (range_index n)" "distinct (range_index n)"
    by (simp_all add: range_index_def sorted_map distinct_map inj_on_def sorted_wrt_map)
  then have "sorted_list_of_set (set (range_index n)) = range_index n"
    by (simp add: sorted_list_of_set.idem_if_sorted_distinct)
  then show ?thesis
    using assms by (simp add: sorted_list_of_set_sort_remdups[symmetric])
qed

lemma zip_range_map:
  "zip (range_index (length xs)) (map g xs)
   = map (\<lambda>i. (int i, g (xs ! i))) [0..<length xs]"
  by (rule nth_equalityI) (simp_all add: range_index_def)

lemma heat_loss_kwh_blocks:
  assumes dt: "values_of delta_t = map Some ts" and hr: "values_of hours = map Some hs"
    and len: "length ts = length hs"
  shows "calculate_heat_loss_kwh (tab g pop) delta_t hours
         = Inr (concat (map (\<lambda>r. kwh_row ts hs (g (snd r))) pop))"
proof -
  have lh: "length hours = length hs"
    using arg_cong[OF hr, of length] by (simp add: values_of_def)
  have w: "np_binop num_mul
             (concat (map (\<lambda>r. replicate (length hs) (g (snd r))) pop))
             (concat (map (\<lambda>r. map Some ts) pop))
           = Inr (concat (map (\<lambda>r. map (\<lambda>t. num_mul (g (snd r)) (Some t)) ts) pop))"
  proof -
    have "\<And>v. map (\<lambda>(a, b). num_mul a b) (zip (replicate (length hs) v) (map Some ts))
              = map (\<lambda>t. num_mul v (Some t)) ts"
      using len by (intro nth_equalityI) simp_all
    then show ?thesis
      using len by (simp add: np_binop_blocks)
  qed
  have k: "np_binop num_mul
             (map (\<lambda>v. num_mul v (Some (1 / 1000)))
                (concat (map (\<lambda>r. map (\<lambda>t. num_mul (g (snd r)) (Some t)) ts) pop)))
             (concat (map (\<lambda>r. map Some hs) pop))
           = Inr (concat (map (\<lambda>r. kwh_row ts hs (g (snd r))) pop))"
  proof -
    have "\<And>v. map (\<lambda>(a, b). num_mul a b)
                 (zip (map (\<lambda>u. num_mul u (Some (1 / 1000))) (map (\<lambda>t. num_mul v (Some t)) ts))
                      (map Some hs))
              = kwh_row ts hs v"
      using len by (intro nth_equalityI) (simp_all add: kwh_row_def)
    then show ?thesis
      using len by (simp add: map_concat comp_def np_binop_blocks)
  qed
  show ?thesis
    unfolding calculate_heat_loss_kwh_def Let_def np_repeat_tab length_tab
      np_tile_blocks dt hr lh w bind_err_def sum.case k
    by (rule refl)
qed

lemma heating_months_positions: "heating_months = map (\<lambda>j. months ! j) heating_positions"
  by (simp add: heating_months_def months_def heating_positions_def)

lemma distinct_months: "distinct months" "length months = 12"
  by (simp_all add: months_def)

lemma filter_zip_distinct:
  assumes "distinct ks" "j < length ks" "length vs = length ks"
  shows "filter (\<lambda>p. fst p = ks ! j) (zip ks vs) = [(ks ! j, vs ! j)]"
  using assms
proof (induction ks arbitrary: j vs)
  case Nil
  then show ?case by simp
next
  case (Cons k ks)
  then obtain v vs' where vs: "vs = v # vs'" by (cases vs) auto
  show ?case
  proof (cases j)
    case 0
    have "filter (\<lambda>p. fst p = k) (zip ks vs') = []"
      using Cons.prems(1) by (auto simp: filter_empty_conv dest: set_zip_leftD)
    then show ?thesis by (simp add: 0 vs)
  next
    case (Suc j')
    then have "ks ! j' \<noteq> k" using Cons.prems by auto
    then show ?thesis
      using Cons.IH[of j' vs'] Cons.prems by (simp add: Suc vs)
  qed
qed

lemma cumcount_from_blocks:
  "distinct ls \<Longrightarrow>
   cumcount_from seen (concat (map (replicate n) ls))
   = concat (map (\<lambda>l. map (\<lambda>i. count_list seen l + i) [0..<n]) ls)"
proof (induction ls arbitrary: seen)
  case Nil
  then show ?case by simp
next
  case (Cons l ls)
  have eq: "\<And>l'. l' \<in> set ls \<Longrightarrow> count_list (replicate n l @ seen) l' = count_list seen l'"
    using Cons.prems by (auto simp: count_list_replicate)
  have "concat (map (\<lambda>l'. map (\<lambda>i. count_list (replicate n l @ seen) l' + i) [0..<n]) ls)
        = concat (map (\<lambda>l'. map (\<lambda>i. count_list seen l' + i) [0..<n]) ls)"
    by (rule arg_cong[where f = concat], rule map_cong[OF refl]) (simp only: eq)
  then show ?case
    using Cons.IH[of "replicate n l @ seen"] Cons.prems
    by (simp only: list.map concat.simps cumcount_from_block distinct.simps)
qed

lemma groupby_cumcount_blocks:
  "distinct ls \<Longrightarrow>
   groupby_cumcount (concat (map (replicate n) ls)) = concat (map (\<lambda>l. range_index n) ls)"
  by (simp add: groupby_cumcount_def cumcount_from_blocks map_concat comp_def range_index_def)

lemma lookup_all_concat:
  "lookup_all k (concat (map F xs)) = concat (map (\<lambda>x. lookup_all k (F x)) xs)"
  by (induction xs) (simp_all add: lookup_all_def)

lemma lookup_all_range_map:
  "i < length pop \<Longrightarrow>
   lookup_all (int i) (zip (range_index (length pop)) (map g pop)) = [g (pop ! i)]"
  using lookup_all_range[of i "map g pop"] by simp

lemma sum_level0_blocks:
  assumes "js \<noteq> []"
  shows "sum_level0 (concat (map (\<lambda>j. zip (range_index (length pop)) (map (v j) pop)) js))
         = pd_Series (map (\<lambda>r. Some (nansum (map (\<lambda>j. v j r) js))) pop)"
proof -
  let ?S = "concat (map (\<lambda>j. zip (range_index (length pop)) (map (v j) pop)) js)"
  have "index ?S = concat (map (\<lambda>j. range_index (length pop)) js)"
    by (simp add: index_def map_concat comp_def range_index_def)
  then have "set (index ?S) = set (range_index (length pop))"
    using assms by auto
  then have keys: "sort (remdups (index ?S)) = range_index (length pop)"
    by (rule sort_remdups_range)
  have "map (\<lambda>k. (k, Some (nansum (lookup_all k ?S)))) (range_index (length pop))
        = map (\<lambda>i. (int i, Some (nansum (map (\<lambda>j. v j (pop ! i)) js)))) [0..<length pop]"
    by (simp add: range_index_def lookup_all_concat lookup_all_range_map[unfolded range_index_def]
          concat_singletons comp_def)
  also have "\<dots> = pd_Series (map (\<lambda>r. Some (nansum (map (\<lambda>j. v j r) js))) pop)"
    by (simp add: pd_Series_def zip_range_map)
  finally show ?thesis
    by (simp add: sum_level0_def keys)
qed

lemma length_kwh_row: "length ts = 12 \<Longrightarrow> length hs = 12 \<Longrightarrow> length (kwh_row ts hs c) = 12"
  by (simp add: kwh_row_def)

lemma heat_loss_per_year_general:
  assumes dt: "values_of delta_t = map Some ts" and hr: "values_of hours = map Some hs"
    and lt: "length ts = 12" and lh: "length hs = 12" and ne: "pop \<noteq> []"
  shows "calculate_heat_loss_per_year (tab g pop) delta_t hours
         = Inr (pd_Series (map (\<lambda>r. Some (np_round (nansum
                  (map (\<lambda>j. kwh_row ts hs (g (snd r)) ! j) heating_positions)))) pop))"
proof -
  let ?row = "\<lambda>r. kwh_row ts hs (g (snd r))"
  have A: "calculate_heat_loss_kwh (tab g pop) delta_t hours
           = Inr (concat (map ?row pop))"
    using heat_loss_kwh_blocks[OF dt hr] lt lh by simp
  have lrow: "\<And>r. length (?row r) = length months"
    by (simp add: length_kwh_row[OF lt lh] distinct_months)
  have B: "pd_Series_index (concat (map ?row pop))
             (concat (replicate (length (tab g pop)) months))
           = Inr (concat (map (\<lambda>r. zip months (?row r)) pop))"
  proof -
    have r: "concat (replicate (length (tab g pop)) months) = concat (map (\<lambda>r. months) pop)"
      by (simp add: length_tab map_replicate_const)
    have l: "length (concat (map ?row pop)) = length (concat (map (\<lambda>r. months) pop))"
      by (rule length_concat_blocks) (rule lrow)
    have z: "zip (concat (map (\<lambda>r. months) pop)) (concat (map ?row pop))
             = concat (map (\<lambda>r. zip months (?row r)) pop)"
      by (rule zip_concat_blocks) (rule lrow[symmetric])
    show ?thesis
      unfolding pd_Series_index_def r using l z by simp
  qed
  let ?s = "concat (map (\<lambda>r. zip months (?row r)) pop)"
  let ?L = "concat (map (\<lambda>j. map (\<lambda>r. (months ! j, ?row r ! j)) pop) heating_positions)"
  have C: "series_loc ?s heating_months = Inr ?L"
  proof -
    have "index ?s = concat (map (\<lambda>r. months) pop)"
      by (simp add: index_def map_concat comp_def lrow)
    then have "set (index ?s) = set months"
      using ne by auto
    then have ok: "\<not> list_ex (\<lambda>l. l \<notin> set (index ?s)) heating_months"
      by (simp add: heating_months_def months_def)
    have f: "\<And>j. j \<in> set heating_positions \<Longrightarrow>
               filter (\<lambda>p. fst p = months ! j) ?s = map (\<lambda>r. (months ! j, ?row r ! j)) pop"
    proof -
      fix j assume "j \<in> set heating_positions"
      then have j: "j < length months"
        by (auto simp: heating_positions_def distinct_months)
      have one: "\<And>r. filter (\<lambda>p. fst p = months ! j) (zip months (?row r))
                     = [(months ! j, ?row r ! j)]"
        by (rule filter_zip_distinct[OF distinct_months(1) j lrow])
      show "filter (\<lambda>p. fst p = months ! j) ?s = map (\<lambda>r. (months ! j, ?row r ! j)) pop"
        unfolding filter_concat_blocks one concat_singletons by (rule refl)
    qed
    have "concat (map (\<lambda>l. filter (\<lambda>p. fst p = l) ?s) heating_months) = ?L"
      unfolding heating_months_positions map_map comp_def
      by (rule arg_cong[where f = concat], rule map_cong[OF refl]) (rule f)
    then show ?thesis
      unfolding series_loc_def using ok by simp
  qed
  have iL: "index ?L = concat (map (replicate (length pop)) heating_months)"
    by (simp add: index_def heating_months_positions map_concat comp_def map_replicate_const)
  have D: "groupby_cumcount (index ?L) = concat (map (\<lambda>j. range_index (length pop)) heating_positions)"
  proof -
    have d: "distinct heating_months"
      by (simp add: heating_months_def)
    have "map (\<lambda>l. range_index (length pop)) heating_months
          = map (\<lambda>j. range_index (length pop)) heating_positions"
      by (simp add: heating_months_positions)
    then show ?thesis
      unfolding iL groupby_cumcount_blocks[OF d] by (rule arg_cong)
  qed
  let ?S = "concat (map (\<lambda>j. zip (range_index (length pop)) (map (\<lambda>r. ?row r ! j) pop))
                     heating_positions)"
  have E: "pd_Series_index (values_of ?L) (groupby_cumcount (index ?L)) = Inr ?S"
  proof -
    have v: "values_of ?L = concat (map (\<lambda>j. map (\<lambda>r. ?row r ! j) pop) heating_positions)"
      by (simp add: values_of_def map_concat comp_def)
    have l: "length (concat (map (\<lambda>j. map (\<lambda>r. ?row r ! j) pop) heating_positions))
             = length (concat (map (\<lambda>j. range_index (length pop)) heating_positions))"
      by (rule length_concat_blocks) (simp add: range_index_def)
    have z: "zip (concat (map (\<lambda>j. range_index (length pop)) heating_positions))
                 (concat (map (\<lambda>j. map (\<lambda>r. ?row r ! j) pop) heating_positions)) = ?S"
      by (rule zip_concat_blocks) (simp add: range_index_def)
    show ?thesis
      unfolding pd_Series_index_def v D using l z by simp
  qed
  have F: "sum_level0 ?S
           = pd_Series (map (\<lambda>r. Some (nansum (map (\<lambda>j. ?row r ! j) heating_positions))) pop)"
    by (rule sum_level0_blocks) (simp add: heating_positions_def)
  have G: "series_scalar (map_option np_round)
             (pd_Series (map (\<lambda>r. Some (nansum (map (\<lambda>j. ?row r ! j) heating_positions))) pop))
           = pd_Series (map (\<lambda>r. Some (np_round (nansum
                  (map (\<lambda>j. ?row r ! j) heating_positions)))) pop)"
    by (simp add: pd_Series_def series_scalar_def zip_map2 case_prod_unfold)
  show ?thesis
    unfolding calculate_heat_loss_per_year_def A bind_err_def sum.case B C Let_def E F G
    by (rule refl)
qed

lemma np_round_nearest: "np_round x \<in> \<int> \<and> \<bar>np_round x - x\<bar> \<le> 1 / 2"
proof -
  have a: "of_int \<lfloor>x\<rfloor> \<le> x" and b: "x < of_int \<lfloor>x\<rfloor> + 1"
    by linarith+
  show ?thesis
    using a b by (auto simp: np_round_def Let_def)
qed

lemma tab_self: "tab (\<lambda>v. v) s = s"
  by (induction s) (auto simp: tab_def)

lemma kwh_sum_numeric:
  "nansum (map (\<lambda>j. kwh_row [t1, t2, t3, t4, t5, t6, t7, t8, t9, t10, t11, t12]
                          [h1, h2, h3, h4, h5, h6, h7, h8, h9, h10, h11, h12] (Some c) ! j)
             heating_positions)
   = c * t1 * h1 / 1000 + c * t2 * h2 / 1000 + c * t3 * h3 / 1000 + c * t4 * h4 / 1000
     + c * t5 * h5 / 1000 + c * t10 * h10 / 1000 + c * t11 * h11 / 1000
     + c * t12 * h12 / 1000"
  by (simp add: nansum_def kwh_row_def heating_positions_def num_simps)

text \<open>
  Claim C5, as amended. For every non-empty heat-loss-coefficient Series (NaN entries
  allowed) and every twelve monthly temperature differences and hours,
  \<open>calculate_heat_loss_per_year\<close> returns one value per dwelling, in input order, and
  for each dwelling whose coefficient is a number that value is the sum over exactly
  the eight heating months (jan, feb, mar, apr, may, oct, nov, dec) of
  coefficient * delta_T * hours / 1000 of that dwelling, rounded to a nearest integer.
  A coefficient of 0 gives 0.
\<close>

theorem heat_loss_per_year:
  assumes "s \<noteq> []"
  shows "\<exists>out.
           calculate_heat_loss_per_year s
             [(''jan'', Some t1), (''feb'', Some t2), (''mar'', Some t3), (''apr'', Some t4),
              (''may'', Some t5), (''jun'', Some t6), (''jul'', Some t7), (''aug'', Some t8),
              (''sep'', Some t9), (''oct'', Some t10), (''nov'', Some t11), (''dec'', Some t12)]
             [(''jan'', Some h1), (''feb'', Some h2), (''mar'', Some h3), (''apr'', Some h4),
              (''may'', Some h5), (''jun'', Some h6), (''jul'', Some h7), (''aug'', Some h8),
              (''sep'', Some h9), (''oct'', Some h10), (''nov'', Some h11), (''dec'', Some h12)]
           = Inr out
         \<and> length out = length s
         \<and> (\<forall>i<length s. \<forall>c. snd (s ! i) = Some c \<longrightarrow>
                snd (out ! i) = Some (np_round
                  (c * t1 * h1 / 1000 + c * t2 * h2 / 1000 + c * t3 * h3 / 1000
                   + c * t4 * h4 / 1000 + c * t5 * h5 / 1000 + c * t10 * h10 / 1000
                   + c * t11 * h11 / 1000 + c * t12 * h12 / 1000)))
         \<and> np_round 0 = 0
         \<and> np_round y \<in> \<int> \<and> \<bar>np_round y - y\<bar> \<le> 1 / 2"
proof -
  let ?ts = "[t1, t2, t3, t4, t5, t6, t7, t8, t9, t10, t11, t12]"
  let ?hs = "[h1, h2, h3, h4, h5, h6, h7, h8, h9, h10, h11, h12]"
  let ?val = "\<lambda>r. Some (np_round (nansum
                  (map (\<lambda>j. kwh_row ?ts ?hs (snd r) ! j) heating_positions)))"
  let ?out = "pd_Series (map ?val s)"
  have "calculate_heat_loss_per_year (tab (\<lambda>v. v) s)
           [(''jan'', Some t1), (''feb'', Some t2), (''mar'', Some t3), (''apr'', Some t4),
            (''may'', Some t5), (''jun'', Some t6), (''jul'', Some t7), (''aug'', Some t8),
            (''sep'', Some t9), (''oct'', Some t10), (''nov'', Some t11), (''dec'', Some t12)]
           [(''jan'', Some h1), (''feb'', Some h2), (''mar'', Some h3), (''apr'', Some h4),
            (''may'', Some h5), (''jun'', Some h6), (''jul'', Some h7), (''aug'', Some h8),
            (''sep'', Some h9), (''oct'', Some h10), (''nov'', Some h11), (''dec'', Some h12)]
        = Inr ?out"
    by (rule heat_loss_per_year_general) (simp_all add: values_of_def assms)
  then have run: "calculate_heat_loss_per_year s
           [(''jan'', Some t1), (''feb'', Some t2), (''mar'', Some t3), (''apr'', Some t4),
            (''may'', Some t5), (''jun'', Some t6), (''jul'', Some t7), (''aug'', Some t8),
            (''sep'', Some t9), (''oct'', Some t10), (''nov'', Some t11), (''dec'', Some t12)]
           [(''jan'', Some h1), (''feb'', Some h2), (''mar'', Some h3), (''apr'', Some h4),
            (''may'', Some h5), (''jun'', Some h6), (''jul'', Some h7), (''aug'', Some h8),
            (''sep'', Some h9), (''oct'', Some h10), (''nov'', Some h11), (''dec'', Some h12)]
        = Inr ?out"
    by (simp only: tab_self)
  have len: "length ?out = length s"
    by (simp add: pd_Series_def range_index_def)
  have rows: "\<forall>i<length s. \<forall>c. snd (s ! i) = Some c \<longrightarrow>
                snd (?out ! i) = Some (np_round
                  (c * t1 * h1 / 1000 + c * t2 * h2 / 1000 + c * t3 * h3 / 1000
                   + c * t4 * h4 / 1000 + c * t5 * h5 / 1000 + c * t10 * h10 / 1000
                   + c * t11 * h11 / 1000 + c * t12 * h12 / 1000))"
  proof (intro allI impI)
    fix i c assume i: "i < length s" and c: "snd (s ! i) = Some c"
    have "snd (?out ! i) = ?val (s ! i)"
      using i by (simp add: pd_Series_def range_index_def)
    then show "snd (?out ! i) = Some (np_round
                  (c * t1 * h1 / 1000 + c * t2 * h2 / 1000 + c * t3 * h3 / 1000
                   + c * t4 * h4 / 1000 + c * t5 * h5 / 1000 + c * t10 * h10 / 1000
                   + c * t11 * h11 / 1000 + c * t12 * h12 / 1000))"
      by (simp only: c kwh_sum_numeric)
  qed
  have zero: "np_round 0 = 0"
    by (simp add: np_round_def)
  show ?thesis
    using run len rows zero np_round_nearest[of y] by blast
qed

theorem heat_loss_per_year_witness:
  "\<exists>out. calculate_heat_loss_per_year [(7, Some 100), (3, Some 0), (4, None)]
            DELTA_T_BY_MONTH HOURS_PER_MONTH = Inr out
        \<and> length out = 3 \<and> snd (out ! 0) = Some 5977 \<and> snd (out ! 1) = Some 0"
proof -
  obtain out where run: "calculate_heat_loss_per_year [(7, Some 100), (3, Some 0), (4, None)]
        [(''jan'', Some (17.72 - 5.3)), (''feb'', Some (17.73 - 5.5)),
         (''mar'', Some (17.85 - 7.0)), (''apr'', Some (17.95 - 8.3)),
         (''may'', Some (18.15 - 11.0)), (''jun'', Some (18.35 - 13.5)),
         (''jul'', Some (18.50 - 15.5)), (''aug'', Some (18.48 - 15.2)),
         (''sep'', Some (18.33 - 13.3)), (''oct'', Some (18.11 - 10.4)),
         (''nov'', Some (17.88 - 7.5)), (''dec'', Some (17.77 - 6.0))]
        [(''jan'', Some (31 * 24)), (''feb'', Some (28 * 24)), (''mar'', Some (31 * 24)),
         (''apr'', Some (30 * 24)), (''may'', Some (31 * 24)), (''jun'', Some (30 * 24)),
         (''jul'', Some (31 * 24)), (''aug'', Some (31 * 24)), (''sep'', Some (30 * 24)),
         (''oct'', Some (31 * 24)), (''nov'', Some (30 * 24)), (''dec'', Some (31 * 24))]
        = Inr out"
    and len: "length out = length [(7 :: int, Some (100 :: real)), (3, Some 0), (4, None)]"
    and rows: "\<forall>i<length [(7 :: int, Some (100 :: real)), (3, Some 0), (4, None)]. \<forall>c.
          snd ([(7 :: int, Some (100 :: real)), (3, Some 0), (4, None)] ! i) = Some c \<longrightarrow>
          snd (out ! i) = Some (np_round
            (c * (17.72 - 5.3) * (31 * 24) / 1000 + c * (17.73 - 5.5) * (28 * 24) / 1000
             + c * (17.85 - 7.0) * (31 * 24) / 1000 + c * (17.95 - 8.3) * (30 * 24) / 1000
             + c * (18.15 - 11.0) * (31 * 24) / 1000 + c * (18.11 - 10.4) * (31 * 24) / 1000
             + c * (17.88 - 7.5) * (30 * 24) / 1000 + c * (17.77 - 6.0) * (31 * 24) / 1000))"
    using heat_loss_per_year
      [of "[(7, Some 100), (3, Some 0), (4, None)]"
          "17.72 - 5.3" "17.73 - 5.5" "17.85 - 7.0" "17.95 - 8.3" "18.15 - 11.0" "18.35 - 13.5"
          "18.50 - 15.5" "18.48 - 15.2" "18.33 - 13.3" "18.11 - 10.4" "17.88 - 7.5" "17.77 - 6.0"
          "31 * 24" "28 * 24" "31 * 24" "30 * 24" "31 * 24" "30 * 24"
          "31 * 24" "31 * 24" "30 * 24" "31 * 24" "30 * 24" "31 * 24"]
    by blast
  have defaults: "DELTA_T_BY_MONTH =
        [(''jan'', Some (17.72 - 5.3)), (''feb'', Some (17.73 - 5.5)),
         (''mar'', Some (17.85 - 7.0)), (''apr'', Some (17.95 - 8.3)),
         (''may'', Some (18.15 - 11.0)), (''jun'', Some (18.35 - 13.5)),
         (''jul'', Some (18.50 - 15.5)), (''aug'', Some (18.48 - 15.2)),
         (''sep'', Some (18.33 - 13.3)), (''oct'', Some (18.11 - 10.4)),
         (''nov'', Some (17.88 - 7.5)), (''dec'', Some (17.77 - 6.0))]"
    "HOURS_PER_MONTH =
        [(''jan'', Some (31 * 24)), (''feb'', Some (28 * 24)), (''mar'', Some (31 * 24)),
         (''apr'', Some (30 * 24)), (''may'', Some (31 * 24)), (''jun'', Some (30 * 24)),
         (''jul'', Some (31 * 24)), (''aug'', Some (31 * 24)), (''sep'', Some (30 * 24)),
         (''oct'', Some (31 * 24)), (''nov'', Some (30 * 24)), (''dec'', Some (31 * 24))]"
    by (simp_all add: DELTA_T_BY_MONTH_def ADJUSTED_MONTHLY_INTERNAL_TEMPERATURE_def
          MEAN_MONTHLY_EXTERNAL_TEMPERATURE_def HOURS_PER_MONTH_def series_binop_def index_def
          num_sub_def num_op2_def)
  have r0: "snd (out ! 0) = Some 5977"
    using rows[rule_format, of 0 100] by (simp add: np_round_def Let_def)
  have r1: "snd (out ! 1) = Some 0"
    using rows[rule_format, of 1 0] by (simp add: np_round_def Let_def)
  show ?thesis
    unfolding defaults using run len r0 r1 by (intro exI[of _ out]) simp
qed

text \<open>
  Claim C5 as stated fails on the empty Series: none of the heating months is a label of
  the empty intermediate Series, and \<open>.loc\<close> raises KeyError. It also fails on a NaN
  coefficient: the monthly products are NaN, the grouped sum skips them, and the result
  is 0 where the formula of the claim is NaN.
\<close>

theorem heat_loss_per_year_empty_or_nan:
  "calculate_heat_loss_per_year [] DELTA_T_BY_MONTH HOURS_PER_MONTH = Inl KeyError
   \<and> calculate_heat_loss_per_year [(0, None)] DELTA_T_BY_MONTH HOURS_PER_MONTH
       = Inr [(0, Some 0)]"
proof -
  have "calculate_heat_loss_per_year [] DELTA_T_BY_MONTH HOURS_PER_MONTH = Inl KeyError"
    by (simp add: calculate_heat_loss_per_year_def calculate_heat_loss_kwh_def np_tile_def
          np_repeat_def values_of_def np_binop_def broadcast_shape_def broadcast_to_def
          bind_err_def pd_Series_index_def series_loc_def index_def heating_months_def)
  moreover have "calculate_heat_loss_per_year [(0, None)] DELTA_T_BY_MONTH HOURS_PER_MONTH
                 = Inr [(0, Some 0)]"
    using heat_loss_per_year_general
      [where g = "\<lambda>v. v" and pop = "[(0, None)]"
         and delta_t = DELTA_T_BY_MONTH and hours = HOURS_PER_MONTH
         and ts = "[17.72 - 5.3, 17.73 - 5.5, 17.85 - 7.0, 17.95 - 8.3, 18.15 - 11.0,
                    18.35 - 13.5, 18.50 - 15.5, 18.48 - 15.2, 18.33 - 13.3, 18.11 - 10.4,
                    17.88 - 7.5, 17.77 - 6.0]"
         and hs = "[31 * 24, 28 * 24, 31 * 24, 30 * 24, 31 * 24, 30 * 24,
                    31 * 24, 31 * 24, 30 * 24, 31 * 24, 30 * 24, 31 * 24]"]
    by (simp add: values_of_def DELTA_T_BY_MONTH_def
          ADJUSTED_MONTHLY_INTERNAL_TEMPERATURE_def MEAN_MONTHLY_EXTERNAL_TEMPERATURE_def
          HOURS_PER_MONTH_def series_binop_def index_def num_sub_def num_op2_def
          tab_def pd_Series_def range_index_def nansum_def kwh_row_def
          heating_positions_def num_mul_def np_round_def)
  ultimately show ?thesis by simp
qed

section \<open>Useful gains and heat use\<close>

text \<open>
  Claim C9. For every table of floor areas and window areas and every twelve monthly
  solar gains (January to December), \<open>calculate_useful_gains_per_year\<close> returns, per
  dwelling, (window area / 6) times the sum over the twelve months of solar gain times
  utilisation factor, times 1000 / 24, plus floor area times the light gain value
  (8 by default).
\<close>

theorem useful_gains_formula:
  "calculate_useful_gains_per_year (column floor_area pop) (column window_area pop)
     [(''jan'', Some g1), (''feb'', Some g2), (''mar'', Some g3), (''apr'', Some g4),
      (''may'', Some g5), (''jun'', Some g6), (''jul'', Some g7), (''aug'', Some g8),
      (''sep'', Some g9), (''oct'', Some g10), (''nov'', Some g11), (''dec'', Some g12)]
     light_gain_value
   = tab (\<lambda>d. Some (window_area d / 6
                      * (g1 * 0.99 + g2 * 0.97 + g3 * 0.91 + g4 * 0.78 + g5 * 0.55 + g6 * 0.38
                         + g7 * 0.25 + g8 * 0.29 + g9 * 0.51 + g10 * 0.83 + g11 * 0.97
                         + g12 * 0.99)
                      * 1000 / 24
                    + floor_area d * light_gain_value)) pop"
proof -
  have s: "series_sum (series_binop num_mul
      [(''jan'', Some g1), (''feb'', Some g2), (''mar'', Some g3), (''apr'', Some g4),
      (''may'', Some g5), (''jun'', Some g6), (''jul'', Some g7), (''aug'', Some g8),
      (''sep'', Some g9), (''oct'', Some g10), (''nov'', Some g11), (''dec'', Some g12)]
      UTILISATION_FACTOR)
     = g1 * 0.99 + g2 * 0.97 + g3 * 0.91 + g4 * 0.78 + g5 * 0.55 + g6 * 0.38
                         + g7 * 0.25 + g8 * 0.29 + g9 * 0.51 + g10 * 0.83 + g11 * 0.97
                         + g12 * 0.99"
    by (simp add: series_sum_def series_binop_def index_def UTILISATION_FACTOR_def nansum_def
          values_of_def num_mul_def num_op2_def)
  show ?thesis
    unfolding calculate_useful_gains_per_year_def s column_def Let_def series_binop_tab
      series_scalar_tab
    by (rule tab_cong) (simp add: num_simps)
qed

theorem useful_gains_formula_witness:
  "calculate_useful_gains_per_year [(0, Some 100)] [(0, Some 12)] MEAN_MONTHLY_SOLAR_GAINS 8
   = [(0, Some (223609 / 120))]"
  using useful_gains_formula [of fst "[(0, (100, 12))]" snd "0.63" "1.12" "1.7" "2.35" "2.96" "2.99" "2.79" "2.54" "1.99" "1.37" "0.8" "0.55" 8]
  by (simp add: column_def tab_def MEAN_MONTHLY_SOLAR_GAINS_def)

text \<open>
  Claim C10. For every table of heat losses and useful gains, \<open>calculate_heat_use\<close>
  returns, per dwelling, (heat loss - useful gains) / 0.913 * 24 * 243 / 1000. The
  function is total: none of its operations can raise.
\<close>

theorem heat_use_formula:
  "calculate_heat_use (column heat_loss pop) (column useful_gains pop)
   = tab (\<lambda>d. Some ((heat_loss d - useful_gains d) / 0.913 * 24 * 243 / 1000)) pop"
  unfolding calculate_heat_use_def column_def Let_def series_binop_tab series_scalar_tab
  by (rule tab_cong) (simp add: num_simps)

theorem heat_use_formula_witness:
  "calculate_heat_use [(3, Some 1000), (8, Some 87)] [(3, Some 87), (8, Some 1000)]
   = [(3, Some 5832), (8, Some (- 5832))]"
  using heat_use_formula [of fst "[(3, (1000, 87)), (8, (87, 1000))]" snd]
  by (simp add: column_def tab_def)

end
